theory Spec2Isabelle
  imports Main
begin

section \<open>The metadata generator: data model\<close>

text \<open>
  The program under verification is \<^verbatim>\<open>build_metadata\<close> of
  \<^verbatim>\<open>metadata_generator.py\<close>: it reads a JSONL manifest line by line, clones every
  listed repository with \<^verbatim>\<open>git clone\<close>, reads the \<^verbatim>\<open>project\<close> table of the
  clone's \<^verbatim>\<open>pyproject.toml\<close>, writes one JSON file per library and finally one index
  file.

  Python strings are modelled as \<^typ>\<open>string\<close>: a \<^typ>\<open>char\<close> is read as one of
  the code points U+0000 to U+00FF.
\<close>

subsection \<open>Python values\<close>

text \<open>
  The objects that \<^verbatim>\<open>json.loads\<close> and \<^verbatim>\<open>toml.load\<close> return. A dictionary is
  an association list in insertion order, looked up with \<^const>\<open>map_of\<close>. A float
  is carried by its \<^verbatim>\<open>repr\<close>; \<open>PDatetime\<close> stands for the date and time objects
  that only TOML produces and that \<^verbatim>\<open>json.dump\<close> refuses.
\<close>

datatype pyval =
    PNone
  | PBool bool
  | PInt int
  | PFloat string
  | PStr string
  | PDatetime string
  | PList "pyval list"
  | PDict "(string \<times> pyval) list"

datatype error =
    OSError
  | JSONDecodeError
  | KeyError string
  | TypeError
  | AttributeError
  | CalledProcessError int
  | TomlDecodeError
  | UnicodeEncodeError

text \<open>\<^verbatim>\<open>obj[key]\<close> with a string key: only a dictionary can be subscripted so.\<close>

fun subscript :: "pyval \<Rightarrow> string \<Rightarrow> error + pyval" where
  "subscript (PDict d) k = (case map_of d k of None \<Rightarrow> Inl (KeyError k) | Some v \<Rightarrow> Inr v)"
| "subscript _ k = Inl TypeError"

text \<open>\<^verbatim>\<open>obj.get(key, default)\<close>: only a dictionary has the method.\<close>

fun py_get :: "pyval \<Rightarrow> string \<Rightarrow> pyval \<Rightarrow> error + pyval" where
  "py_get (PDict d) k dflt = (case map_of d k of None \<Rightarrow> Inr dflt | Some v \<Rightarrow> Inr v)"
| "py_get _ k dflt = Inl AttributeError"

subsection \<open>\<^verbatim>\<open>str.lower\<close>\<close>

text \<open>
  On the code points below U+0100 the upper-case letters are A to Z and U+00C0 to
  U+00DE without the multiplication sign U+00D7; each has its lower-case letter 32
  places further on.
\<close>

definition is_upper :: "char \<Rightarrow> bool" where
  "is_upper c = (let n = (of_char c :: nat) in
     (65 \<le> n \<and> n \<le> 90) \<or> (192 \<le> n \<and> n \<le> 222 \<and> n \<noteq> 215))"

definition lower_char :: "char \<Rightarrow> char" where
  "lower_char c = (if is_upper c then char_of ((of_char c :: nat) + 32) else c)"

definition lower :: "string \<Rightarrow> string" where
  "lower s = map lower_char s"

subsection \<open>\<^verbatim>\<open>pathlib\<close> paths (POSIX flavour)\<close>

text \<open>
  A path object is modelled by the string that \<^verbatim>\<open>os.path.join\<close> makes of its
  segments; \<open>path_str\<close> is \<^verbatim>\<open>str(p)\<close> and \<^verbatim>\<open>p.as_posix()\<close>, which drop empty and
  \<^verbatim>\<open>.\<close> components and keep a root of one or of exactly two slashes.
\<close>

fun split_on :: "char \<Rightarrow> string \<Rightarrow> string list" where
  "split_on c [] = [[]]"
| "split_on c (x # xs) =
     (if x = c then [] # split_on c xs
      else (case split_on c xs of [] \<Rightarrow> [[x]] | p # ps \<Rightarrow> (x # p) # ps))"

fun join_with :: "string \<Rightarrow> string list \<Rightarrow> string" where
  "join_with sep [] = []"
| "join_with sep [p] = p"
| "join_with sep (p # q # ps) = p @ sep @ join_with sep (q # ps)"

definition path_root :: "string \<Rightarrow> string" where
  "path_root s =
     (case s of
        [] \<Rightarrow> []
      | a # r \<Rightarrow>
          if a \<noteq> CHR ''/'' then []
          else (case r of
                  [] \<Rightarrow> ''/''
                | b # r' \<Rightarrow>
                    if b \<noteq> CHR ''/'' then ''/''
                    else (case r' of
                            [] \<Rightarrow> ''//''
                          | c # _ \<Rightarrow> if c = CHR ''/'' then ''/'' else ''//'')))"

definition path_parts :: "string \<Rightarrow> string list" where
  "path_parts s = filter (\<lambda>p. p \<noteq> [] \<and> p \<noteq> ''.'') (split_on CHR ''/'' s)"

definition path_str :: "string \<Rightarrow> string" where
  "path_str s =
     (if path_root s = [] \<and> path_parts s = [] then ''.''
      else path_root s @ join_with ''/'' (path_parts s))"

text \<open>\<^verbatim>\<open>p / name\<close>: an absolute right operand replaces the left one.\<close>

definition truediv :: "string \<Rightarrow> string \<Rightarrow> string" where
  "truediv p name =
     (if name \<noteq> [] \<and> hd name = CHR ''/'' then name
      else if p = [] \<or> last p = CHR ''/'' then p @ name
      else p @ ''/'' @ name)"

section \<open>The environment and the effects\<close>

text \<open>
  What the program prints: the warning for a missing \<^verbatim>\<open>pyproject.toml\<close>, which
  starts with the characters U+26A0 U+FE0F and names the library, and the final
  summary with its three interpolated values.
\<close>

datatype message = Warning string | Summary nat string string

text \<open>
  Everything outside the program is a field of the environment: the two parsers, the
  \<^verbatim>\<open>git\<close> process, the file system calls and the standard output. \<open>None\<close> is the
  call's exception (for \<open>subprocess_run\<close>: the process could not be started), and
  \<open>toml_load\<close> says which exception it raised. \<open>can_print\<close> tells whether the
  standard output can encode a message; \<^verbatim>\<open>print\<close> raises \<^verbatim>\<open>UnicodeEncodeError\<close> when
  it cannot. \<open>path_exists\<close> and \<open>toml_load\<close> are asked after the clone and describe
  the tree that the clone left.

  \<open>subprocess_run\<close> gives the exit status of \<^verbatim>\<open>git clone\<close> into a destination
  that is free. The one thing a run changes and later reads back is the set of clone
  destinations that exist and are not empty: it is passed along as a list \<open>dirs\<close>,
  see \<open>git_clone\<close> below.
\<close>

record env =
  mkdir_ok :: "string \<Rightarrow> bool"
  read_lines :: "string \<Rightarrow> string list option"
  json_loads :: "string \<Rightarrow> pyval option"
  subprocess_run :: "string list \<Rightarrow> int option"
  path_exists :: "string \<Rightarrow> bool"
  toml_load :: "string \<Rightarrow> error + (string \<times> pyval) list"
  can_write :: "string \<Rightarrow> bool"
  can_print :: "message \<Rightarrow> bool"

text \<open>The four keyword arguments of \<^verbatim>\<open>build_metadata\<close>, with their defaults.\<close>

record args =
  manifest_path :: string
  output_index :: string
  metadata_dir :: string
  clone_root :: string

definition default_args :: args where
  "default_args =
     \<lparr>manifest_path = ''xai_components_manifest.jsonl'', output_index = ''index.json'',
      metadata_dir = ''metadata'', clone_root = ''.clones''\<rparr>"

text \<open>
  What a file holds after \<^verbatim>\<open>json.dump\<close>: the dump of a value, or the beginning of
  one when the encoder met a value it cannot encode.
\<close>

datatype content = Complete pyval | Partial pyval

text \<open>The effects of a run, in the order they happen.\<close>

datatype event =
    Mkdir string
  | Run "string list"
  | Print message
  | WriteMetadata string content
  | WriteIndex string content

fun json_serializable :: "pyval \<Rightarrow> bool" where
  "json_serializable (PDatetime _) = False"
| "json_serializable (PList xs) = list_all json_serializable xs"
| "json_serializable (PDict d) = list_all json_serializable (map snd d)"
| "json_serializable _ = True"

definition as_str :: "pyval \<Rightarrow> string option" where
  "as_str v = (case v of PStr s \<Rightarrow> Some s | _ \<Rightarrow> None)"

definition and_then :: "error + 'a \<Rightarrow> ('a \<Rightarrow> error + 'b) \<Rightarrow> error + 'b" where
  "and_then r f = (case r of Inl e \<Rightarrow> Inl e | Inr x \<Rightarrow> f x)"

section \<open>The program\<close>

text \<open>
  The three paths of an iteration, under the names of the local variables that hold
  them (lines 31, 38 and 62).
\<close>

definition target :: "args \<Rightarrow> string \<Rightarrow> string" where
  "target A lib_id = truediv (clone_root A) (lower lib_id)"

definition pyproj :: "string \<Rightarrow> string" where
  "pyproj tgt = truediv tgt ''pyproject.toml''"

definition out_file :: "args \<Rightarrow> string \<Rightarrow> string" where
  "out_file A lib_id = truediv (metadata_dir A) (lower lib_id @ ''.json'')"

text \<open>
  Line 34: \<^verbatim>\<open>subprocess.run(['git', 'clone', repo_url, str(target)], check=True)\<close>.
  An argument that is not a string is a \<^verbatim>\<open>TypeError\<close> before any process starts.
  \<^verbatim>\<open>git clone\<close> refuses a destination that exists and is not empty: it exits with
  status 128 and leaves the destination as it was. A clone that exits with 0 leaves
  the destination behind, and nothing in the program removes it (the imported
  \<^verbatim>\<open>shutil\<close> is never used), so the destination is in \<open>dirs\<close> from then on.
\<close>

definition git_clone ::
  "env \<Rightarrow> string list \<Rightarrow> pyval \<Rightarrow> string \<Rightarrow> event list \<times> error option \<times> string list" where
  "git_clone E dirs repo_url tgt =
     (case as_str repo_url of
        None \<Rightarrow> ([], Some TypeError, dirs)
      | Some u \<Rightarrow>
          let argv = [''git'', ''clone'', u, path_str tgt] in
          (case subprocess_run E argv of
             None \<Rightarrow> ([], Some OSError, dirs)
           | Some rc \<Rightarrow>
               if path_str tgt \<in> set dirs then ([Run argv], Some (CalledProcessError 128), dirs)
               else if rc = 0 then ([Run argv], None, path_str tgt # dirs)
               else ([Run argv], Some (CalledProcessError rc), dirs)))"

text \<open>Lines 37 to 42: the \<^verbatim>\<open>project\<close> table, or the warning and an empty dictionary.\<close>

definition load_project :: "env \<Rightarrow> string \<Rightarrow> string \<Rightarrow> event list \<times> (error + pyval)" where
  "load_project E tgt lib_id =
     (if path_exists E (path_str (pyproj tgt)) then
        (case toml_load E (path_str (pyproj tgt)) of
           Inl e \<Rightarrow> ([], Inl e)
         | Inr doc \<Rightarrow> ([], py_get (PDict doc) ''project'' (PDict [])))
      else if can_print E (Warning lib_id) then ([Print (Warning lib_id)], Inr (PDict []))
      else ([], Inl UnicodeEncodeError))"

text \<open>Lines 44 to 59: the dictionary display, its values evaluated from top to bottom.\<close>

definition build_record ::
  "pyval \<Rightarrow> string \<Rightarrow> pyval \<Rightarrow> pyval \<Rightarrow> pyval \<Rightarrow> error + pyval" where
  "build_record entry lib_id repo_url ref proj_data =
     and_then (subscript entry ''path'') (\<lambda>path.
     and_then (py_get proj_data ''version'' (PStr ''N/A'')) (\<lambda>version.
     and_then (py_get proj_data ''description'' (PStr ''No description available.'')) (\<lambda>description.
     and_then (py_get proj_data ''authors'' (PList [])) (\<lambda>authors.
     and_then (py_get proj_data ''license'' (PStr ''N/A'')) (\<lambda>license.
     and_then (py_get proj_data ''readme'' PNone) (\<lambda>readme.
     and_then (py_get proj_data ''repository'' PNone) (\<lambda>repository.
     and_then (py_get proj_data ''keywords'' (PList [])) (\<lambda>keywords.
     and_then (py_get proj_data ''dependencies'' (PList [])) (\<lambda>requirements.
     Inr (PDict
       [(''library_id'', PStr lib_id),
        (''path'', path),
        (''url'', repo_url),
        (''git_ref'', ref),
        (''version'', version),
        (''description'', description),
        (''authors'', authors),
        (''license'', license),
        (''readme'', readme),
        (''repository'', repository),
        (''keywords'', keywords),
        (''requirements'', requirements)]))))))))))"

text \<open>
  \<^verbatim>\<open>with open(file, 'w') as f: json.dump(value, f, indent=2)\<close>: opening creates or
  empties the file; the encoder writes piece by piece and stops at a value it cannot
  encode.
\<close>

definition write_json ::
  "env \<Rightarrow> (string \<Rightarrow> content \<Rightarrow> event) \<Rightarrow> string \<Rightarrow> pyval \<Rightarrow> event list \<times> error option" where
  "write_json E wr file v =
     (if \<not> can_write E file then ([], Some OSError)
      else if json_serializable v then ([wr file (Complete v)], None)
      else ([wr file (Partial v)], Some TypeError))"

text \<open>
  Lines 27 to 70, the body of the loop for one line of the manifest: the events of
  the iteration, the raised exception or the entry appended to \<^verbatim>\<open>index\<close>, and the
  clone destinations that exist afterwards.
\<close>

definition process_line ::
  "env \<Rightarrow> args \<Rightarrow> string list \<Rightarrow> string \<Rightarrow> event list \<times> (error + pyval) \<times> string list" where
  "process_line E A dirs line =
     (case json_loads E line of
        None \<Rightarrow> ([], Inl JSONDecodeError, dirs)
      | Some entry \<Rightarrow>
     (case subscript entry ''library_id'' of
        Inl e \<Rightarrow> ([], Inl e, dirs)
      | Inr lib_id \<Rightarrow>
     (case subscript entry ''url'' of
        Inl e \<Rightarrow> ([], Inl e, dirs)
      | Inr repo_url \<Rightarrow>
     (case py_get entry ''git_ref'' (PStr ''main'') of
        Inl e \<Rightarrow> ([], Inl e, dirs)
      | Inr ref \<Rightarrow>
     (case as_str lib_id of
        None \<Rightarrow> ([], Inl AttributeError, dirs)
      | Some lib \<Rightarrow>
     (case git_clone E dirs repo_url (target A lib) of
        (ev1, Some e, dirs') \<Rightarrow> (ev1, Inl e, dirs')
      | (ev1, None, dirs') \<Rightarrow>
     (case load_project E (target A lib) lib of
        (ev2, Inl e) \<Rightarrow> (ev1 @ ev2, Inl e, dirs')
      | (ev2, Inr proj_data) \<Rightarrow>
     (case build_record entry lib repo_url ref proj_data of
        Inl e \<Rightarrow> (ev1 @ ev2, Inl e, dirs')
      | Inr metadata \<Rightarrow>
     (case write_json E WriteMetadata (path_str (out_file A lib)) metadata of
        (ev3, Some e) \<Rightarrow> (ev1 @ ev2 @ ev3, Inl e, dirs')
      | (ev3, None) \<Rightarrow>
          (ev1 @ ev2 @ ev3,
           and_then (subscript entry ''path'') (\<lambda>path.
           Inr (PDict
             [(''library_id'', PStr lib),
              (''path'', path),
              (''metadata'', PStr (path_str (out_file A lib)))])),
           dirs'))))))))))"

text \<open>Lines 26 to 70: the loop, with \<^verbatim>\<open>index\<close> as it grows.\<close>

fun process_lines ::
  "env \<Rightarrow> args \<Rightarrow> string list \<Rightarrow> string list \<Rightarrow> pyval list
     \<Rightarrow> event list \<times> (error + pyval list) \<times> string list" where
  "process_lines E A dirs [] index = ([], Inr index, dirs)"
| "process_lines E A dirs (line # rest) index =
     (case process_line E A dirs line of
        (evs, Inl e, dirs') \<Rightarrow> (evs, Inl e, dirs')
      | (evs, Inr ie, dirs') \<Rightarrow>
          (case process_lines E A dirs' rest (index @ [ie]) of
             (evs', r) \<Rightarrow> (evs @ evs', r)))"

text \<open>
  \<^verbatim>\<open>build_metadata\<close>, started where the clone destinations \<open>dirs\<close> exist: the events
  of the run, the exception that ended it, if any, and the clone destinations that
  exist afterwards.
\<close>

definition build_metadata ::
  "env \<Rightarrow> args \<Rightarrow> string list \<Rightarrow> event list \<times> error option \<times> string list" where
  "build_metadata E A dirs =
     (let meta_dir = path_str (metadata_dir A) in
      if \<not> mkdir_ok E meta_dir then ([], Some OSError, dirs)
      else
        (case read_lines E (manifest_path A) of
           None \<Rightarrow> ([Mkdir meta_dir], Some OSError, dirs)
         | Some lines \<Rightarrow>
             (case process_lines E A dirs lines [] of
                (evs, Inl e, dirs') \<Rightarrow> (Mkdir meta_dir # evs, Some e, dirs')
              | (evs, Inr index, dirs') \<Rightarrow>
                  (case write_json E WriteIndex (output_index A) (PList index) of
                     (evw, Some e) \<Rightarrow> (Mkdir meta_dir # evs @ evw, Some e, dirs')
                   | (evw, None) \<Rightarrow>
                       let summary = Summary (length index) (metadata_dir A) (output_index A) in
                       if can_print E summary
                       then (Mkdir meta_dir # evs @ evw @ [Print summary], None, dirs')
                       else (Mkdir meta_dir # evs @ evw, Some UnicodeEncodeError, dirs')))))"

text \<open>The files of the output after a sequence of events, from the files before it.\<close>

fun apply_event :: "(string \<rightharpoonup> content) \<Rightarrow> event \<Rightarrow> (string \<rightharpoonup> content)" where
  "apply_event fs (WriteMetadata p c) = fs(p \<mapsto> c)"
| "apply_event fs (WriteIndex p c) = fs(p \<mapsto> c)"
| "apply_event fs _ = fs"

definition files_after :: "(string \<rightharpoonup> content) \<Rightarrow> event list \<Rightarrow> (string \<rightharpoonup> content)" where
  "files_after fs evs = foldl apply_event fs evs"

text \<open>No output file yet.\<close>

definition no_files :: "string \<rightharpoonup> content" where
  "no_files = Map.empty"

section \<open>Reading a trace\<close>

fun metadata_writes :: "event list \<Rightarrow> (string \<times> content) list" where
  "metadata_writes [] = []"
| "metadata_writes (WriteMetadata p c # es) = (p, c) # metadata_writes es"
| "metadata_writes (_ # es) = metadata_writes es"

fun index_writes :: "event list \<Rightarrow> (string \<times> content) list" where
  "index_writes [] = []"
| "index_writes (WriteIndex p c # es) = (p, c) # index_writes es"
| "index_writes (_ # es) = index_writes es"

fun warnings :: "event list \<Rightarrow> string list" where
  "warnings [] = []"
| "warnings (Print (Warning lib) # es) = lib # warnings es"
| "warnings (_ # es) = warnings es"

fun commands :: "event list \<Rightarrow> string list list" where
  "commands [] = []"
| "commands (Run argv # es) = argv # commands es"
| "commands (_ # es) = commands es"

text \<open>Every file write of a trace, of either kind, in order.\<close>

fun writes :: "event list \<Rightarrow> (string \<times> content) list" where
  "writes [] = []"
| "writes (WriteMetadata p c # es) = (p, c) # writes es"
| "writes (WriteIndex p c # es) = (p, c) # writes es"
| "writes (_ # es) = writes es"

section \<open>Manifest lines\<close>

text \<open>The value under a key in the JSON object of a manifest line, if there is one.\<close>

definition manifest_field :: "env \<Rightarrow> string \<Rightarrow> string \<Rightarrow> pyval option" where
  "manifest_field E line k =
     (case json_loads E line of
        None \<Rightarrow> None
      | Some v \<Rightarrow> (case subscript v k of Inl e \<Rightarrow> None | Inr x \<Rightarrow> Some x))"

definition is_string :: "pyval option \<Rightarrow> bool" where
  "is_string f = (case f of None \<Rightarrow> False | Some v \<Rightarrow> as_str v \<noteq> None)"

text \<open>
  A well-formed line is a JSON object with the strings \<^verbatim>\<open>library_id\<close>, \<^verbatim>\<open>path\<close>
  and \<^verbatim>\<open>url\<close> and, if it has a \<^verbatim>\<open>git_ref\<close>, a string there too.
\<close>

definition well_formed_line :: "env \<Rightarrow> string \<Rightarrow> bool" where
  "well_formed_line E line =
     (is_string (manifest_field E line ''library_id'') \<and>
      is_string (manifest_field E line ''path'') \<and>
      is_string (manifest_field E line ''url'') \<and>
      (manifest_field E line ''git_ref'' = None \<or>
       is_string (manifest_field E line ''git_ref'')))"

text \<open>The revision of a line: its \<^verbatim>\<open>git_ref\<close>, or \<^verbatim>\<open>main\<close>.\<close>

definition line_ref :: "env \<Rightarrow> string \<Rightarrow> pyval" where
  "line_ref E line =
     (case manifest_field E line ''git_ref'' of None \<Rightarrow> PStr ''main'' | Some r \<Rightarrow> r)"

text \<open>
  The record of a library whose project table gives nothing: the four fields of the
  manifest and the eight defaults.
\<close>

definition default_record :: "string \<Rightarrow> pyval \<Rightarrow> pyval \<Rightarrow> pyval \<Rightarrow> pyval" where
  "default_record lib path url ref =
     PDict
       [(''library_id'', PStr lib),
        (''path'', path),
        (''url'', url),
        (''git_ref'', ref),
        (''version'', PStr ''N/A''),
        (''description'', PStr ''No description available.''),
        (''authors'', PList []),
        (''license'', PStr ''N/A''),
        (''readme'', PNone),
        (''repository'', PNone),
        (''keywords'', PList []),
        (''requirements'', PList [])]"

text \<open>
  The external steps of one line go well: \<^verbatim>\<open>git clone\<close> into a free destination
  exits with 0; the \<^verbatim>\<open>pyproject.toml\<close> parses into a document whose \<^verbatim>\<open>project\<close>, if
  any, is a table of JSON values, or it is absent and the warning can be printed;
  and the output file can be opened for writing.
\<close>

definition project_loads :: "env \<Rightarrow> string \<Rightarrow> string \<Rightarrow> bool" where
  "project_loads E tgt lib =
     (if path_exists E (path_str (pyproj tgt)) then
        (case toml_load E (path_str (pyproj tgt)) of
           Inl e \<Rightarrow> False
         | Inr doc \<Rightarrow>
             (case map_of doc ''project'' of
                None \<Rightarrow> True
              | Some t \<Rightarrow> (case t of PDict _ \<Rightarrow> json_serializable t | _ \<Rightarrow> False)))
      else can_print E (Warning lib))"

definition externals_ok :: "env \<Rightarrow> args \<Rightarrow> string \<Rightarrow> bool" where
  "externals_ok E A line =
     (case manifest_field E line ''library_id'' of
        None \<Rightarrow> False
      | Some i \<Rightarrow>
     (case as_str i of
        None \<Rightarrow> False
      | Some lib \<Rightarrow>
     (case manifest_field E line ''url'' of
        None \<Rightarrow> False
      | Some r \<Rightarrow>
     (case as_str r of
        None \<Rightarrow> False
      | Some u \<Rightarrow>
          subprocess_run E [''git'', ''clone'', u, path_str (target A lib)] = Some 0 \<and>
          project_loads E (target A lib) lib \<and>
          can_write E (path_str (out_file A lib))))))"

text \<open>
  Two identifiers differ only in case: they have the same length, and at every
  position the characters are equal or one is the lower-case form of the other.
\<close>

definition same_letter :: "char \<Rightarrow> char \<Rightarrow> bool" where
  "same_letter c d = (c = d \<or> lower_char c = d \<or> c = lower_char d)"

definition differ_only_in_case :: "string \<Rightarrow> string \<Rightarrow> bool" where
  "differ_only_in_case a b = list_all2 same_letter a b"

section \<open>The vocabulary of the specification\<close>

text \<open>
  What the specification calls the parts of a manifest entry and of its outputs, in
  its own words: the identifier of a line, the checkout directory and the file named
  after the lower-cased identifier, and the index projection (identifier, path, path
  of that file).
\<close>

definition spec_library_id :: "env \<Rightarrow> string \<Rightarrow> string option" where
  "spec_library_id E line =
     (case manifest_field E line ''library_id'' of None \<Rightarrow> None | Some v \<Rightarrow> as_str v)"

definition spec_target :: "env \<Rightarrow> args \<Rightarrow> string \<Rightarrow> string option" where
  "spec_target E A line = map_option (\<lambda>lib. path_str (target A lib)) (spec_library_id E line)"

definition spec_out_file :: "env \<Rightarrow> args \<Rightarrow> string \<Rightarrow> string option" where
  "spec_out_file E A line = map_option (\<lambda>lib. path_str (out_file A lib)) (spec_library_id E line)"

definition spec_index_entry :: "env \<Rightarrow> args \<Rightarrow> string \<Rightarrow> pyval option" where
  "spec_index_entry E A line =
     (case spec_library_id E line of
        None \<Rightarrow> None
      | Some lib \<Rightarrow>
          (case manifest_field E line ''path'' of
             None \<Rightarrow> None
           | Some p \<Rightarrow>
               Some (PDict
                 [(''library_id'', PStr lib),
                  (''path'', p),
                  (''metadata'', PStr (path_str (out_file A lib)))])))"

text \<open>
  The record that \<open>build_record\<close> returns for a project table \<open>t\<close>, written out
  (lemma \<open>build_record_Inr\<close>).
\<close>

definition merged_record ::
  "string \<Rightarrow> pyval \<Rightarrow> pyval \<Rightarrow> pyval \<Rightarrow> (string \<times> pyval) list \<Rightarrow> pyval" where
  "merged_record lib path url ref t =
     PDict
       [(''library_id'', PStr lib),
        (''path'', path),
        (''url'', url),
        (''git_ref'', ref),
        (''version'', case map_of t ''version'' of None \<Rightarrow> PStr ''N/A'' | Some v \<Rightarrow> v),
        (''description'', case map_of t ''description'' of
            None \<Rightarrow> PStr ''No description available.'' | Some v \<Rightarrow> v),
        (''authors'', case map_of t ''authors'' of None \<Rightarrow> PList [] | Some v \<Rightarrow> v),
        (''license'', case map_of t ''license'' of None \<Rightarrow> PStr ''N/A'' | Some v \<Rightarrow> v),
        (''readme'', case map_of t ''readme'' of None \<Rightarrow> PNone | Some v \<Rightarrow> v),
        (''repository'', case map_of t ''repository'' of None \<Rightarrow> PNone | Some v \<Rightarrow> v),
        (''keywords'', case map_of t ''keywords'' of None \<Rightarrow> PList [] | Some v \<Rightarrow> v),
        (''requirements'', case map_of t ''dependencies'' of None \<Rightarrow> PList [] | Some v \<Rightarrow> v)]"

text \<open>The value under a key in a completely written JSON object.\<close>

definition record_field :: "content \<Rightarrow> string \<Rightarrow> pyval option" where
  "record_field c k =
     (case c of
        Partial v \<Rightarrow> None
      | Complete v \<Rightarrow> (case subscript v k of Inl e \<Rightarrow> None | Inr x \<Rightarrow> Some x))"

text \<open>The value under a key in the JSON object that a file holds.\<close>

definition file_field :: "(string \<rightharpoonup> content) \<Rightarrow> string \<Rightarrow> string \<Rightarrow> pyval option" where
  "file_field fs file k = (case fs file of None \<Rightarrow> None | Some c \<Rightarrow> record_field c k)"

text \<open>
  A write is the record of a line: it goes to the file named after the line's
  identifier, and the object written has the line's \<^verbatim>\<open>library_id\<close>, \<^verbatim>\<open>path\<close> and
  \<^verbatim>\<open>url\<close> and its revision.
\<close>

definition record_of_line :: "env \<Rightarrow> args \<Rightarrow> string \<Rightarrow> string \<times> content \<Rightarrow> bool" where
  "record_of_line E A line w =
     (spec_out_file E A line = Some (fst w) \<and>
      record_field (snd w) ''library_id'' = manifest_field E line ''library_id'' \<and>
      record_field (snd w) ''path'' = manifest_field E line ''path'' \<and>
      record_field (snd w) ''url'' = manifest_field E line ''url'' \<and>
      record_field (snd w) ''git_ref'' = Some (line_ref E line))"

section \<open>A small world to run the program in\<close>

definition line_foo :: string where
  \<open>line_foo = ''{"library_id":"Foo","path":"libs/foo","url":"https://example/foo.git"}''\<close>

definition line_bar :: string where
  \<open>line_bar =
     ''{"library_id":"Bar","path":"libs/bar","url":"https://example/bar.git","git_ref":"v1.0"}''\<close>

definition line_qux :: string where
  \<open>line_qux = ''{"library_id":"Qux","path":"libs/qux","url":"https://example/qux.git"}''\<close>

definition line_foo_again :: string where
  \<open>line_foo_again =
     ''{"library_id":"Foo","path":"libs/foo2","url":"https://example/foo.git","git_ref":"dev"}''\<close>

definition line_bad :: string where
  \<open>line_bad = ''{"library_id":"Baz",''\<close>

definition demo_json :: "(string \<times> pyval) list" where
  "demo_json =
     [(line_foo, PDict [(''library_id'', PStr ''Foo''), (''path'', PStr ''libs/foo''),
         (''url'', PStr ''https://example/foo.git'')]),
      (line_bar, PDict [(''library_id'', PStr ''Bar''), (''path'', PStr ''libs/bar''),
         (''url'', PStr ''https://example/bar.git''), (''git_ref'', PStr ''v1.0'')]),
      (line_qux, PDict [(''library_id'', PStr ''Qux''), (''path'', PStr ''libs/qux''),
         (''url'', PStr ''https://example/qux.git'')]),
      (line_foo_again, PDict [(''library_id'', PStr ''Foo''), (''path'', PStr ''libs/foo2''),
         (''url'', PStr ''https://example/foo.git''), (''git_ref'', PStr ''dev'')])]"

definition demo_toml :: "(string \<times> (string \<times> pyval) list) list" where
  "demo_toml =
     [(''.clones/bar/pyproject.toml'',
         [(''project'', PDict [(''name'', PStr ''bar''), (''version'', PStr ''0.3.1''),
            (''description'', PStr ''Bar components'')])]),
      (''.clones/qux/pyproject.toml'',
         [(''build-system'', PDict [(''requires'', PList [PStr ''setuptools''])])])]"

definition demo_manifests :: "(string \<times> string list) list" where
  "demo_manifests =
     [(''xai_components_manifest.jsonl'', [line_foo, line_bar, line_qux]),
      (''duplicates.jsonl'', [line_foo, line_bar, line_foo_again]),
      (''broken.jsonl'', [line_foo, line_bad, line_bar])]"

definition broken_args :: args where
  "broken_args = default_args\<lparr>manifest_path := ''broken.jsonl''\<rparr>"

definition duplicates_args :: args where
  "duplicates_args = default_args\<lparr>manifest_path := ''duplicates.jsonl''\<rparr>"

definition demo_env :: env where
  "demo_env =
     \<lparr>mkdir_ok = (\<lambda>p. True),
      read_lines = map_of demo_manifests,
      json_loads = map_of demo_json,
      subprocess_run = (\<lambda>argv. Some 0),
      path_exists = (\<lambda>p. map_of demo_toml p \<noteq> None),
      toml_load = (\<lambda>p. case map_of demo_toml p of None \<Rightarrow> Inl OSError | Some doc \<Rightarrow> Inr doc),
      can_write = (\<lambda>p. True),
      can_print = (\<lambda>m. True)\<rparr>"

section \<open>The small steps\<close>

lemma subscript_Inr: "subscript v k = Inr x \<longleftrightarrow> (\<exists>d. v = PDict d \<and> map_of d k = Some x)"
  by (cases v) (auto split: option.splits)

lemma py_get_Inr:
  "py_get v k dflt = Inr x \<longleftrightarrow>
     (\<exists>d. v = PDict d \<and> x = (case map_of d k of None \<Rightarrow> dflt | Some y \<Rightarrow> y))"
  by (cases v) (auto split: option.splits)

lemma as_str_Some: "as_str v = Some s \<longleftrightarrow> v = PStr s"
  by (cases v) (auto simp: as_str_def)

lemma as_str_PStr [simp]: "as_str (PStr s) = Some s"
  by (simp add: as_str_def)

lemma and_then_Inr: "and_then r f = Inr y \<longleftrightarrow> (\<exists>x. r = Inr x \<and> f x = Inr y)"
  by (cases r) (auto simp: and_then_def)

lemma and_then_simps [simp]: "and_then (Inr x) f = f x" "and_then (Inl e) f = Inl e"
  by (simp_all add: and_then_def)

lemma git_clone_None:
  "git_clone E dirs v t = (evs, None, dirs') \<longleftrightarrow>
     (\<exists>u. v = PStr u \<and> subprocess_run E [''git'', ''clone'', u, path_str t] = Some 0
        \<and> path_str t \<notin> set dirs
        \<and> evs = [Run [''git'', ''clone'', u, path_str t]] \<and> dirs' = path_str t # dirs)"
  by (auto simp: git_clone_def as_str_Some Let_def split: option.splits if_splits)

lemma git_clone_occupied:
  "subprocess_run E [''git'', ''clone'', u, path_str t] = Some rc \<Longrightarrow> path_str t \<in> set dirs \<Longrightarrow>
     git_clone E dirs (PStr u) t =
       ([Run [''git'', ''clone'', u, path_str t]], Some (CalledProcessError 128), dirs)"
  by (simp add: git_clone_def)

lemma write_json_None:
  "write_json E wr f v = (evs, None) \<longleftrightarrow>
     (can_write E f \<and> json_serializable v \<and> evs = [wr f (Complete v)])"
  by (auto simp: write_json_def)

lemma manifest_field_dict:
  "json_loads E l = Some (PDict d) \<Longrightarrow> manifest_field E l k = map_of d k"
  by (simp add: manifest_field_def split: option.splits)

lemma manifest_field_Some:
  "manifest_field E l k = Some x \<longleftrightarrow> (\<exists>d. json_loads E l = Some (PDict d) \<and> map_of d k = Some x)"
  by (auto simp: manifest_field_def subscript_Inr split: option.splits sum.splits)

lemma metadata_writes_append [simp]:
  "metadata_writes (xs @ ys) = metadata_writes xs @ metadata_writes ys"
  by (induction xs rule: metadata_writes.induct) simp_all

lemma index_writes_append [simp]:
  "index_writes (xs @ ys) = index_writes xs @ index_writes ys"
  by (induction xs rule: index_writes.induct) simp_all

lemma warnings_append [simp]: "warnings (xs @ ys) = warnings xs @ warnings ys"
  by (induction xs rule: warnings.induct) simp_all

lemma commands_append [simp]: "commands (xs @ ys) = commands xs @ commands ys"
  by (induction xs rule: commands.induct) simp_all

lemma load_project_events:
  "load_project E t lib = (ev, Inr pd) \<Longrightarrow>
     metadata_writes ev = [] \<and> index_writes ev = [] \<and> commands ev = [] \<and> writes ev = []
       \<and> warnings ev = (if path_exists E (path_str (pyproj t)) then [] else [lib])"
  by (auto simp: load_project_def split: if_splits sum.splits)

section \<open>One iteration of the loop\<close>

lemma process_line_Inr:
  assumes "process_line E A dirs l = (evs, Inr ie, dirs')"
  shows "\<exists>d lib u p ev2 pd m.
     json_loads E l = Some (PDict d) \<and> map_of d ''library_id'' = Some (PStr lib)
   \<and> map_of d ''url'' = Some (PStr u) \<and> map_of d ''path'' = Some p
   \<and> subprocess_run E [''git'', ''clone'', u, path_str (target A lib)] = Some 0
   \<and> path_str (target A lib) \<notin> set dirs \<and> dirs' = path_str (target A lib) # dirs
   \<and> load_project E (target A lib) lib = (ev2, Inr pd)
   \<and> build_record (PDict d) lib (PStr u)
        (case map_of d ''git_ref'' of None \<Rightarrow> PStr ''main'' | Some r \<Rightarrow> r) pd = Inr m
   \<and> can_write E (path_str (out_file A lib))
   \<and> json_serializable m
   \<and> evs = Run [''git'', ''clone'', u, path_str (target A lib)] # ev2
        @ [WriteMetadata (path_str (out_file A lib)) (Complete m)]
   \<and> ie = PDict [(''library_id'', PStr lib), (''path'', p),
        (''metadata'', PStr (path_str (out_file A lib)))]"
  using assms
  apply (simp add: process_line_def Let_def split: option.splits sum.splits prod.splits)
  apply (auto simp: subscript_Inr py_get_Inr as_str_Some git_clone_None write_json_None and_then_Inr)
  done

lemma process_line_succeeds:
  assumes "json_loads E l = Some (PDict d)" "map_of d ''library_id'' = Some (PStr lib)"
    "map_of d ''url'' = Some (PStr u)" "map_of d ''path'' = Some p"
    "subprocess_run E [''git'', ''clone'', u, path_str (target A lib)] = Some 0"
    "load_project E (target A lib) lib = (ev2, Inr pd)"
    "build_record (PDict d) lib (PStr u)
        (case map_of d ''git_ref'' of None \<Rightarrow> PStr ''main'' | Some r \<Rightarrow> r) pd = Inr m"
    "can_write E (path_str (out_file A lib))" "json_serializable m"
    "path_str (target A lib) \<notin> set dirs"
  shows "process_line E A dirs l =
     (Run [''git'', ''clone'', u, path_str (target A lib)] # ev2
        @ [WriteMetadata (path_str (out_file A lib)) (Complete m)],
      Inr (PDict [(''library_id'', PStr lib), (''path'', p),
        (''metadata'', PStr (path_str (out_file A lib)))]),
      path_str (target A lib) # dirs)"
  using assms
  by (simp add: process_line_def git_clone_def write_json_def split: option.splits)

lemma build_record_Inr:
  "build_record (PDict d) lib url ref pd = Inr m \<longleftrightarrow>
     (\<exists>p t. map_of d ''path'' = Some p \<and> pd = PDict t \<and> m = merged_record lib p url ref t)"
  unfolding build_record_def and_then_Inr subscript_Inr py_get_Inr merged_record_def
  by auto

lemma merged_record_empty: "merged_record lib p url ref [] = default_record lib p url ref"
  by (simp add: merged_record_def default_record_def)

section \<open>Values that can be written as JSON\<close>

lemma json_serializable_lookup:
  "json_serializable (PDict t) \<Longrightarrow> map_of t k = Some v \<Longrightarrow> json_serializable v"
  by (auto simp: list_all_iff dest!: map_of_SomeD)

lemma json_serializable_get:
  "json_serializable (PDict t) \<Longrightarrow> json_serializable dflt \<Longrightarrow>
     json_serializable (case map_of t k of None \<Rightarrow> dflt | Some v \<Rightarrow> v)"
proof (cases "map_of t k")
  case None
  assume "json_serializable dflt"
  with None show ?thesis by simp
next
  case (Some v)
  assume "json_serializable (PDict t)"
  from json_serializable_lookup [OF this Some] Some show ?thesis by simp
qed

lemma project_loads_load_project:
  assumes "project_loads E t lib"
  shows "\<exists>ev tab. load_project E t lib = (ev, Inr (PDict tab)) \<and> json_serializable (PDict tab)"
proof (cases "path_exists E (path_str (pyproj t))")
  case False
  with assms show ?thesis by (simp add: load_project_def project_loads_def)
next
  case True
  with assms obtain doc where doc: "toml_load E (path_str (pyproj t)) = Inr doc"
    and ok: "case map_of doc ''project'' of None \<Rightarrow> True
       | Some x \<Rightarrow> (case x of PDict _ \<Rightarrow> json_serializable x | _ \<Rightarrow> False)"
    by (auto simp: project_loads_def split: sum.splits)
  show ?thesis
  proof (cases "map_of doc ''project''")
    case None
    with True doc show ?thesis by (simp add: load_project_def)
  next
    case (Some x)
    with ok obtain tab where "x = PDict tab" "json_serializable (PDict tab)"
      by (cases x) auto
    with True doc Some show ?thesis by (simp add: load_project_def)
  qed
qed

lemma merged_record_serializable:
  assumes "json_serializable p" "json_serializable url" "json_serializable ref"
    "json_serializable (PDict t)"
  shows "json_serializable (merged_record lib p url ref t)"
proof -
  note g = json_serializable_get [OF assms(4)]
  have "json_serializable (case map_of t ''version'' of None \<Rightarrow> PStr ''N/A'' | Some v \<Rightarrow> v)"
       "json_serializable (case map_of t ''description'' of None \<Rightarrow> PStr ''No description available.'' | Some v \<Rightarrow> v)"
       "json_serializable (case map_of t ''authors'' of None \<Rightarrow> PList [] | Some v \<Rightarrow> v)"
       "json_serializable (case map_of t ''license'' of None \<Rightarrow> PStr ''N/A'' | Some v \<Rightarrow> v)"
       "json_serializable (case map_of t ''readme'' of None \<Rightarrow> PNone | Some v \<Rightarrow> v)"
       "json_serializable (case map_of t ''repository'' of None \<Rightarrow> PNone | Some v \<Rightarrow> v)"
       "json_serializable (case map_of t ''keywords'' of None \<Rightarrow> PList [] | Some v \<Rightarrow> v)"
       "json_serializable (case map_of t ''dependencies'' of None \<Rightarrow> PList [] | Some v \<Rightarrow> v)"
    by (rule g, simp)+
  with assms(1-3) show ?thesis
    by (simp add: merged_record_def)
qed

lemma merged_record_fields:
  "subscript (merged_record lib p url ref t) ''library_id'' = Inr (PStr lib)"
  "subscript (merged_record lib p url ref t) ''path'' = Inr p"
  "subscript (merged_record lib p url ref t) ''url'' = Inr url"
  "subscript (merged_record lib p url ref t) ''git_ref'' = Inr ref"
  by (simp_all add: merged_record_def)

lemma merged_record_path_serializable:
  "json_serializable (merged_record lib p url ref t) \<Longrightarrow> json_serializable p"
  by (simp add: merged_record_def)

lemma is_string_Some: "is_string f \<longleftrightarrow> (\<exists>s. f = Some (PStr s))"
  by (auto simp: is_string_def as_str_Some split: option.splits)

lemma well_formed_line_target:
  "well_formed_line E l \<Longrightarrow> \<exists>t. spec_target E A l = Some t"
  by (auto simp: well_formed_line_def is_string_Some spec_target_def spec_library_id_def)

lemma well_formed_line_succeeds:
  assumes wf: "well_formed_line E l" and ext: "externals_ok E A l"
    and t: "spec_target E A l = Some t" and free: "t \<notin> set dirs"
  shows "\<exists>ev ie. process_line E A dirs l = (ev, Inr ie, t # dirs)"
proof -
  from wf obtain lib p u where lib: "manifest_field E l ''library_id'' = Some (PStr lib)"
    and p: "manifest_field E l ''path'' = Some (PStr p)"
    and u: "manifest_field E l ''url'' = Some (PStr u)"
    and r: "manifest_field E l ''git_ref'' = None \<or> (\<exists>s. manifest_field E l ''git_ref'' = Some (PStr s))"
    by (auto simp: well_formed_line_def is_string_Some)
  from lib obtain d where d: "json_loads E l = Some (PDict d)"
    by (auto simp: manifest_field_Some)
  note f = manifest_field_dict [OF d]
  from ext lib u have run: "subprocess_run E [''git'', ''clone'', u, path_str (target A lib)] = Some 0"
    and pl: "project_loads E (target A lib) lib" and w: "can_write E (path_str (out_file A lib))"
    by (simp_all add: externals_ok_def)
  from t lib have t': "t = path_str (target A lib)"
    by (simp add: spec_target_def spec_library_id_def)
  from project_loads_load_project [OF pl] obtain ev2 tab where
    lp: "load_project E (target A lib) lib = (ev2, Inr (PDict tab))" and st: "json_serializable (PDict tab)"
    by blast
  from r have sr: "json_serializable (case map_of d ''git_ref'' of None \<Rightarrow> PStr ''main'' | Some r \<Rightarrow> r)"
    by (auto simp: f)
  define m where "m = merged_record lib (PStr p) (PStr u)
     (case map_of d ''git_ref'' of None \<Rightarrow> PStr ''main'' | Some r \<Rightarrow> r) tab"
  have m: "build_record (PDict d) lib (PStr u)
        (case map_of d ''git_ref'' of None \<Rightarrow> PStr ''main'' | Some r \<Rightarrow> r) (PDict tab) = Inr m"
    using p by (simp add: build_record_Inr m_def f)
  have sm: "json_serializable m"
    unfolding m_def by (rule merged_record_serializable [OF _ _ sr st]) simp_all
  from free have "path_str (target A lib) \<notin> set dirs"
    by (simp add: t')
  from process_line_succeeds [OF d _ _ _ run lp m w sm this, of "PStr p"] lib u p
  show ?thesis by (simp add: f t')
qed

section \<open>What a completed iteration has done\<close>

lemma process_line_facts:
  assumes "process_line E A dirs l = (ev, Inr ie, dirs')"
  shows "\<exists>w. metadata_writes ev = [w] \<and> record_of_line E A l w
     \<and> index_writes ev = [] \<and> spec_index_entry E A l = Some ie \<and> json_serializable ie"
proof -
  from process_line_Inr [OF assms] obtain d lib u p ev2 pd m where
    d: "json_loads E l = Some (PDict d)" and lib: "map_of d ''library_id'' = Some (PStr lib)"
    and u: "map_of d ''url'' = Some (PStr u)" and p: "map_of d ''path'' = Some p"
    and lp: "load_project E (target A lib) lib = (ev2, Inr pd)"
    and m: "build_record (PDict d) lib (PStr u)
        (case map_of d ''git_ref'' of None \<Rightarrow> PStr ''main'' | Some r \<Rightarrow> r) pd = Inr m"
    and sm: "json_serializable m"
    and ev: "ev = Run [''git'', ''clone'', u, path_str (target A lib)] # ev2
        @ [WriteMetadata (path_str (out_file A lib)) (Complete m)]"
    and ie: "ie = PDict [(''library_id'', PStr lib), (''path'', p),
        (''metadata'', PStr (path_str (out_file A lib)))]"
    by blast
  note f = manifest_field_dict [OF d]
  from load_project_events [OF lp] ev
  have w: "metadata_writes ev = [(path_str (out_file A lib), Complete m)]" and i: "index_writes ev = []"
    by simp_all
  from m p obtain t where m': "m = merged_record lib p (PStr u)
      (case map_of d ''git_ref'' of None \<Rightarrow> PStr ''main'' | Some r \<Rightarrow> r) t"
    unfolding build_record_Inr by auto
  from sm have sp: "json_serializable p"
    unfolding m' by (rule merged_record_path_serializable)
  have "record_field (Complete m) ''library_id'' = manifest_field E l ''library_id''"
       "record_field (Complete m) ''path'' = manifest_field E l ''path''"
       "record_field (Complete m) ''url'' = manifest_field E l ''url''"
       "record_field (Complete m) ''git_ref'' = Some (line_ref E l)"
    by (simp_all add: record_field_def m' merged_record_fields f lib p u line_ref_def)
  moreover have "spec_out_file E A l = Some (path_str (out_file A lib))"
    by (simp add: spec_out_file_def spec_library_id_def f lib)
  moreover have "spec_index_entry E A l = Some ie"
    by (simp add: spec_index_entry_def spec_library_id_def f lib p ie)
  moreover have "json_serializable ie"
    using sp by (simp add: ie)
  ultimately have "record_of_line E A l (path_str (out_file A lib), Complete m)"
      "spec_index_entry E A l = Some ie" "json_serializable ie"
    by (simp_all add: record_of_line_def)
  with w i show ?thesis by blast
qed

lemma process_lines_all_succeed:
  assumes "\<forall>l\<in>set ls. well_formed_line E l \<and> externals_ok E A l"
    and "distinct (map (spec_target E A) ls)"
    and "\<forall>l\<in>set ls. \<forall>t\<in>set dirs. spec_target E A l \<noteq> Some t"
  shows "\<exists>evs ies dirs'. process_lines E A dirs ls idx = (evs, Inr (idx @ ies), dirs')
     \<and> list_all2 (record_of_line E A) ls (metadata_writes evs)
     \<and> map Some ies = map (spec_index_entry E A) ls
     \<and> index_writes evs = [] \<and> list_all json_serializable ies
     \<and> set dirs \<subseteq> set dirs' \<and> (\<forall>l\<in>set ls. \<forall>t. spec_target E A l = Some t \<longrightarrow> t \<in> set dirs')"
  using assms
proof (induction ls arbitrary: idx dirs)
  case Nil
  then show ?case by simp
next
  case (Cons l ls)
  from Cons.prems(1) have wf: "well_formed_line E l" and ext: "externals_ok E A l"
    by simp_all
  from well_formed_line_target [OF wf] obtain t where t: "spec_target E A l = Some t"
    by blast
  with Cons.prems(3) have free: "t \<notin> set dirs"
    by auto
  from well_formed_line_succeeds [OF wf ext t free] obtain ev ie where
    l: "process_line E A dirs l = (ev, Inr ie, t # dirs)"
    by blast
  from process_line_facts [OF l] obtain w where
    w: "metadata_writes ev = [w]" and r: "record_of_line E A l w"
    and i: "index_writes ev = []" and e: "spec_index_entry E A l = Some ie"
    and s: "json_serializable ie"
    by blast
  have 1: "\<forall>l\<in>set ls. well_formed_line E l \<and> externals_ok E A l"
    using Cons.prems(1) by simp
  have 2: "distinct (map (spec_target E A) ls)"
    using Cons.prems(2) by simp
  have "spec_target E A l' \<noteq> Some t" if "l' \<in> set ls" for l'
  proof
    assume "spec_target E A l' = Some t"
    with that t have "spec_target E A l \<in> set (map (spec_target E A) ls)"
      by force
    with Cons.prems(2) show False by simp
  qed
  with Cons.prems(3) have 3: "\<forall>l'\<in>set ls. \<forall>t'\<in>set (t # dirs). spec_target E A l' \<noteq> Some t'"
    by auto
  from Cons.IH [OF 1 2 3, of "idx @ [ie]"] obtain evs ies dirs' where
    rest: "process_lines E A (t # dirs) ls (idx @ [ie]) = (evs, Inr ((idx @ [ie]) @ ies), dirs')"
    and ws: "list_all2 (record_of_line E A) ls (metadata_writes evs)"
    and es: "map Some ies = map (spec_index_entry E A) ls"
    and iw: "index_writes evs = []" and ss: "list_all json_serializable ies"
    and sub: "set (t # dirs) \<subseteq> set dirs'"
    and tg: "\<forall>l\<in>set ls. \<forall>t. spec_target E A l = Some t \<longrightarrow> t \<in> set dirs'"
    by blast
  have "process_lines E A dirs (l # ls) idx = (ev @ evs, Inr (idx @ (ie # ies)), dirs')"
    using l rest by simp
  moreover have "list_all2 (record_of_line E A) (l # ls) (metadata_writes (ev @ evs))"
    using w r ws by simp
  moreover have "map Some (ie # ies) = map (spec_index_entry E A) (l # ls)"
    using e es by simp
  moreover have "index_writes (ev @ evs) = []" "list_all json_serializable (ie # ies)"
    using i iw s ss by simp_all
  moreover have "set dirs \<subseteq> set dirs'"
    using sub by auto
  moreover have "\<forall>l'\<in>set (l # ls). \<forall>t. spec_target E A l' = Some t \<longrightarrow> t \<in> set dirs'"
    using sub tg t by auto
  ultimately show ?case by blast
qed

lemma line_ref_dict:
  "json_loads E l = Some (PDict d) \<Longrightarrow>
     line_ref E l = (case map_of d ''git_ref'' of None \<Rightarrow> PStr ''main'' | Some r \<Rightarrow> r)"
  by (simp add: line_ref_def manifest_field_dict)

lemma line_ref_serializable:
  "json_loads E l = Some (PDict d) \<Longrightarrow> json_serializable (PDict d) \<Longrightarrow>
     json_serializable (line_ref E l)"
  unfolding line_ref_dict by (rule json_serializable_get) simp_all

lemma process_line_with_table:
  assumes d: "json_loads E line = Some (PDict d)"
    and lib: "map_of d ''library_id'' = Some (PStr lib)"
    and u: "map_of d ''url'' = Some (PStr u)"
    and p: "map_of d ''path'' = Some p"
    and sd: "json_serializable (PDict d)"
    and run: "subprocess_run E [''git'', ''clone'', u, path_str (target A lib)] = Some 0"
    and lp: "load_project E (target A lib) lib = (ev2, Inr (PDict t))"
    and st: "json_serializable (PDict t)"
    and w: "can_write E (path_str (out_file A lib))"
    and free: "path_str (target A lib) \<notin> set dirs"
  shows "process_line E A dirs line =
     (Run [''git'', ''clone'', u, path_str (target A lib)] # ev2
        @ [WriteMetadata (path_str (out_file A lib))
             (Complete (merged_record lib p (PStr u) (line_ref E line) t))],
      Inr (PDict [(''library_id'', PStr lib), (''path'', p),
        (''metadata'', PStr (path_str (out_file A lib)))]),
      path_str (target A lib) # dirs)"
proof -
  have m: "build_record (PDict d) lib (PStr u)
        (case map_of d ''git_ref'' of None \<Rightarrow> PStr ''main'' | Some r \<Rightarrow> r) (PDict t)
      = Inr (merged_record lib p (PStr u) (line_ref E line) t)"
    using p by (simp add: build_record_Inr line_ref_dict [OF d])
  have sp: "json_serializable p"
    by (rule json_serializable_lookup [OF sd p])
  have sm: "json_serializable (merged_record lib p (PStr u) (line_ref E line) t)"
    by (rule merged_record_serializable [OF sp _ line_ref_serializable [OF d sd] st]) simp
  show ?thesis
    by (rule process_line_succeeds [OF d lib u p run lp m w sm free])
qed

section \<open>The files after a run\<close>

lemma writes_append [simp]: "writes (xs @ ys) = writes xs @ writes ys"
  by (induction xs rule: writes.induct) simp_all

lemma writes_without_index:
  "index_writes evs = [] \<Longrightarrow> writes evs = metadata_writes evs"
  by (induction evs rule: writes.induct) simp_all

lemma files_after_writes: "files_after fs evs = fs ++ map_of (rev (writes evs))"
  unfolding files_after_def
proof (induction evs arbitrary: fs)
  case Nil
  show ?case by simp
next
  case (Cons e evs)
  show ?case
    by (cases e) (auto simp: Cons.IH map_add_def fun_eq_iff split: option.splits)
qed

section \<open>The loop and a line that does not parse\<close>

lemma process_lines_append:
  "process_lines E A dirs (xs @ ys) idx =
     (case process_lines E A dirs xs idx of
        (evs, Inl e, dirs') \<Rightarrow> (evs, Inl e, dirs')
      | (evs, Inr idx', dirs') \<Rightarrow>
          (case process_lines E A dirs' ys idx' of (evs', r) \<Rightarrow> (evs @ evs', r)))"
  by (induction xs arbitrary: idx dirs) (auto split: prod.splits sum.splits)

lemma process_line_no_index_write: "index_writes (fst (process_line E A dirs l)) = []"
  by (auto simp: process_line_def git_clone_def load_project_def write_json_def Let_def
      split: option.splits sum.splits prod.splits if_splits)

lemma process_lines_no_index_write: "index_writes (fst (process_lines E A dirs ls idx)) = []"
proof (induction ls arbitrary: idx dirs)
  case Nil
  show ?case by simp
next
  case (Cons l ls)
  obtain ev r d where l: "process_line E A dirs l = (ev, r, d)"
    by (cases "process_line E A dirs l")
  with process_line_no_index_write [of E A dirs l] have ev: "index_writes ev = []"
    by simp
  show ?case
  proof (cases r)
    case (Inl e)
    with l ev show ?thesis by simp
  next
    case (Inr ie)
    obtain evs' r' where rest: "process_lines E A d ls (idx @ [ie]) = (evs', r')"
      by (cases "process_lines E A d ls (idx @ [ie])")
    with Cons.IH [of d "idx @ [ie]"] have "index_writes evs' = []"
      by simp
    with l ev Inr rest show ?thesis by simp
  qed
qed

lemma process_line_bad_json:
  "json_loads E l = None \<Longrightarrow> process_line E A dirs l = ([], Inl JSONDecodeError, dirs)"
  by (simp add: process_line_def)

lemma process_lines_bad_json:
  assumes "json_loads E bad = None"
  shows "fst (process_lines E A dirs (pre @ bad # post) idx) = fst (process_lines E A dirs pre idx)"
    and "\<exists>e. fst (snd (process_lines E A dirs (pre @ bad # post) idx)) = Inl e"
    and "process_lines E A dirs pre idx = (evs, Inr idx', dirs') \<Longrightarrow>
         process_lines E A dirs (pre @ bad # post) idx = (evs, Inl JSONDecodeError, dirs')"
  by (auto simp: process_lines_append process_line_bad_json [OF assms] split: prod.splits sum.splits)

section \<open>A checkout directory that is already there\<close>

lemma process_line_occupied:
  assumes "json_loads E l = Some (PDict d)" "map_of d ''library_id'' = Some (PStr lib)"
    "map_of d ''url'' = Some (PStr u)"
    "subprocess_run E [''git'', ''clone'', u, path_str (target A lib)] = Some rc"
    "path_str (target A lib) \<in> set dirs"
  shows "process_line E A dirs l =
     ([Run [''git'', ''clone'', u, path_str (target A lib)]], Inl (CalledProcessError 128), dirs)"
  using assms by (simp add: process_line_def git_clone_occupied split: option.splits)

lemma process_line_keeps_dirs: "set dirs \<subseteq> set (snd (snd (process_line E A dirs l)))"
  by (auto simp: process_line_def git_clone_def Let_def
      split: option.splits sum.splits prod.splits if_splits)

lemma process_lines_keeps_dirs: "set dirs \<subseteq> set (snd (snd (process_lines E A dirs ls idx)))"
proof (induction ls arbitrary: idx dirs)
  case Nil
  show ?case by simp
next
  case (Cons l ls)
  obtain ev r d where l: "process_line E A dirs l = (ev, r, d)"
    by (cases "process_line E A dirs l")
  with process_line_keeps_dirs [of dirs E A l] have d: "set dirs \<subseteq> set d"
    by simp
  show ?case
  proof (cases r)
    case (Inl e)
    with l d show ?thesis by simp
  next
    case (Inr ie)
    obtain evs' r' where rest: "process_lines E A d ls (idx @ [ie]) = (evs', r')"
      by (cases "process_lines E A d ls (idx @ [ie])")
    with Cons.IH [of d "idx @ [ie]"] have "set d \<subseteq> set (snd r')"
      by simp
    with l d Inr rest show ?thesis by auto
  qed
qed

lemma list_all2_in_set2:
  "list_all2 P xs ys \<Longrightarrow> y \<in> set ys \<Longrightarrow> \<exists>x\<in>set xs. P x y"
  by (induction xs ys rule: list_all2_induct) auto

lemma map_of_rev_absent:
  "k \<notin> fst ` set ws \<Longrightarrow> map_of (rev ws) k = None"
  by (simp add: map_of_eq_None_iff)

lemma record_of_line_file:
  "record_of_line E A l w \<Longrightarrow> spec_library_id E l = Some lib \<Longrightarrow> fst w = path_str (out_file A lib)"
  by (auto simp: record_of_line_def spec_out_file_def)

section \<open>Lower case and paths\<close>

lemma of_char_less_256: "(of_char c :: nat) < 256"
proof -
  have "of_char c = (of_char c :: nat) mod 256"
    by (simp only: of_char_mod_256)
  then show ?thesis
    by (metis mod_less_divisor zero_less_numeral)
qed

lemma of_char_lower_char:
  "(of_char (lower_char c) :: nat) = (if is_upper c then of_char c + 32 else of_char c)"
  using of_char_less_256 [of c]
  by (auto simp: lower_char_def is_upper_def Let_def)

lemma lower_char_not_upper: "\<not> is_upper (lower_char c)"
  unfolding is_upper_def [of "lower_char c"] of_char_lower_char Let_def
  by (auto simp: is_upper_def Let_def)

lemma lower_char_idem: "lower_char (lower_char c) = lower_char c"
  using lower_char_not_upper [of c] by (simp add: lower_char_def [of "lower_char c"])

lemma same_letter_lower: "same_letter c d \<Longrightarrow> lower_char c = lower_char d"
  by (auto simp: same_letter_def lower_char_idem)

lemma differ_only_in_case_lower: "differ_only_in_case a b \<Longrightarrow> lower a = lower b"
  unfolding differ_only_in_case_def lower_def
  by (induction a b rule: list_all2_induct) (simp_all add: same_letter_lower)

lemma lower_char_slash: "lower_char c = CHR ''/'' \<longleftrightarrow> c = CHR ''/''"
proof
  assume "lower_char c = CHR ''/''"
  then have "(of_char (lower_char c) :: nat) = 47" by simp
  then have "\<not> is_upper c" "(of_char c :: nat) = 47"
    by (auto simp: of_char_lower_char is_upper_def Let_def split: if_splits)
  with \<open>lower_char c = CHR ''/''\<close> show "c = CHR ''/''"
    by (simp add: lower_char_def)
next
  assume "c = CHR ''/''"
  then show "lower_char c = CHR ''/''"
    by (simp add: lower_char_def is_upper_def)
qed

lemma lower_no_slash: "CHR ''/'' \<notin> set s \<Longrightarrow> CHR ''/'' \<notin> set (lower s)"
proof
  assume free: "CHR ''/'' \<notin> set s" and "CHR ''/'' \<in> set (lower s)"
  then obtain x where "x \<in> set s" "lower_char x = CHR ''/''"
    by (auto simp: lower_def)
  with free show False
    by (simp add: lower_char_slash)
qed

lemma split_on_absent: "c \<notin> set xs \<Longrightarrow> split_on c xs = [xs]"
  by (induction xs) auto

lemma split_on_first: "c \<notin> set xs \<Longrightarrow> split_on c (xs @ c # ys) = xs # split_on c ys"
  by (induction xs) auto

lemma path_str_plain:
  assumes "CHR ''/'' \<notin> set d" "d \<noteq> []" "d \<noteq> ''.''" "CHR ''/'' \<notin> set n" "n \<noteq> []" "n \<noteq> ''.''"
  shows "path_str (truediv d n) = d @ ''/'' @ n"
proof -
  from assms(4,5) have hn: "hd n \<noteq> CHR ''/''"
    by (cases n) auto
  from assms(2) have "last d \<in> set d"
    by (rule last_in_set)
  with assms(1) have ld: "last d \<noteq> CHR ''/''"
    by metis
  from assms(1,2) have hd: "hd d \<noteq> CHR ''/''"
    by (cases d) auto
  have t: "truediv d n = d @ CHR ''/'' # n"
    using hn ld assms(2) by (simp add: truediv_def)
  have r: "path_root (d @ CHR ''/'' # n) = []"
    using hd assms(2) by (cases d) (simp_all add: path_root_def)
  have p: "path_parts (d @ CHR ''/'' # n) = [d, n]"
    using assms by (simp add: path_parts_def split_on_first split_on_absent)
  show ?thesis
    by (simp add: path_str_def t r p)
qed


section \<open>The claims\<close>



text \<open>
  Claim C2 (the clone is made at the entry's \<^verbatim>\<open>git_ref\<close>). The code reads the
  revision but never hands it to \<^verbatim>\<open>git\<close>: in the run over the default manifest the
  second line asks for \<^verbatim>\<open>v1.0\<close>, and the three commands are plain
  \<^verbatim>\<open>git clone url target\<close>, with no revision among their arguments.
\<close>

theorem clone_command_leaves_out_git_ref:
  "line_ref demo_env line_bar = PStr ''v1.0''
   \<and> commands (fst (build_metadata demo_env default_args [])) =
       [[''git'', ''clone'', ''https://example/foo.git'', ''.clones/foo''],
        [''git'', ''clone'', ''https://example/bar.git'', ''.clones/bar''],
        [''git'', ''clone'', ''https://example/qux.git'', ''.clones/qux'']]"
  by code_simp

text \<open>
  Claim C3. For a line that is a JSON object with a string \<^verbatim>\<open>library_id\<close>, a string
  \<^verbatim>\<open>url\<close> and a \<^verbatim>\<open>path\<close>, whose clone succeeds and has no \<^verbatim>\<open>pyproject.toml\<close>, the
  one record written carries the four fields of the line unchanged (the revision
  being \<^verbatim>\<open>main\<close> when the line has none) and the eight defaults.
\<close>

theorem absent_project_file_gives_defaults:
  assumes "json_loads E line = Some (PDict d)"
    and "json_serializable (PDict d)"
    and "map_of d ''library_id'' = Some (PStr lib)"
    and "map_of d ''url'' = Some (PStr u)"
    and "map_of d ''path'' = Some p"
    and "subprocess_run E [''git'', ''clone'', u, path_str (target A lib)] = Some 0"
    and "path_str (target A lib) \<notin> set dirs"
    and "\<not> path_exists E (path_str (pyproj (target A lib)))"
    and "can_print E (Warning lib)"
    and "can_write E (path_str (out_file A lib))"
  shows "metadata_writes (fst (process_line E A dirs line)) =
     [(path_str (out_file A lib),
       Complete (PDict
         [(''library_id'', PStr lib),
          (''path'', p),
          (''url'', PStr u),
          (''git_ref'', case map_of d ''git_ref'' of None \<Rightarrow> PStr ''main'' | Some r \<Rightarrow> r),
          (''version'', PStr ''N/A''),
          (''description'', PStr ''No description available.''),
          (''authors'', PList []),
          (''license'', PStr ''N/A''),
          (''readme'', PNone),
          (''repository'', PNone),
          (''keywords'', PList []),
          (''requirements'', PList [])]))]"
proof -
  have lp: "load_project E (target A lib) lib = ([Print (Warning lib)], Inr (PDict []))"
    using assms(8,9) by (simp add: load_project_def)
  from process_line_with_table [OF assms(1,3,4,5,2,6) lp _ assms(10,7)]
  show ?thesis
    by (simp add: merged_record_def line_ref_dict [OF assms(1)])
qed

theorem absent_project_file_gives_defaults_witness:
  "metadata_writes (fst (process_line demo_env default_args [] line_foo)) =
     [(''metadata/foo.json'',
       Complete (PDict
         [(''library_id'', PStr ''Foo''),
          (''path'', PStr ''libs/foo''),
          (''url'', PStr ''https://example/foo.git''),
          (''git_ref'', PStr ''main''),
          (''version'', PStr ''N/A''),
          (''description'', PStr ''No description available.''),
          (''authors'', PList []),
          (''license'', PStr ''N/A''),
          (''readme'', PNone),
          (''repository'', PNone),
          (''keywords'', PList []),
          (''requirements'', PList [])]))]"
proof -
  let ?d = "[(''library_id'', PStr ''Foo''), (''path'', PStr ''libs/foo''),
       (''url'', PStr ''https://example/foo.git'')]"
  have 1: "json_loads demo_env line_foo = Some (PDict ?d)" by code_simp
  have 2: "json_serializable (PDict ?d)" by simp
  have 3: "map_of ?d ''library_id'' = Some (PStr ''Foo'')" by simp
  have 4: "map_of ?d ''url'' = Some (PStr ''https://example/foo.git'')" by simp
  have 5: "map_of ?d ''path'' = Some (PStr ''libs/foo'')" by simp
  have 6: "subprocess_run demo_env
      [''git'', ''clone'', ''https://example/foo.git'', path_str (target default_args ''Foo'')] = Some 0"
    by (simp add: demo_env_def)
  have 7: "path_str (target default_args ''Foo'') \<notin> set []"
    by simp
  have 8: "\<not> path_exists demo_env (path_str (pyproj (target default_args ''Foo'')))"
    by code_simp
  have 9: "can_print demo_env (Warning ''Foo'')"
    by (simp add: demo_env_def)
  have 10: "can_write demo_env (path_str (out_file default_args ''Foo''))"
    by (simp add: demo_env_def)
  have 11: "path_str (out_file default_args ''Foo'') = ''metadata/foo.json''"
    by code_simp
  from absent_project_file_gives_defaults [OF 1 2 3 4 5 6 7 8 9 10] show ?thesis
    unfolding 11 by simp
qed

text \<open>
  Claim C4. Whenever the iteration for a line completes, the record it wrote has
  \<^verbatim>\<open>git_ref\<close> equal to \<^verbatim>\<open>main\<close> if the line has no \<^verbatim>\<open>git_ref\<close>, and equal to the
  line's own value if it has one.
\<close>

theorem git_ref_defaults_to_main:
  assumes "fst (snd (process_line E A dirs line)) = Inr ie"
  shows "\<exists>file c. metadata_writes (fst (process_line E A dirs line)) = [(file, c)]
     \<and> (manifest_field E line ''git_ref'' = None \<longrightarrow> record_field c ''git_ref'' = Some (PStr ''main''))
     \<and> (\<forall>r. manifest_field E line ''git_ref'' = Some r \<longrightarrow> record_field c ''git_ref'' = Some r)"
proof -
  from assms have "process_line E A dirs line =
      (fst (process_line E A dirs line), Inr ie, snd (snd (process_line E A dirs line)))"
    by (simp add: prod_eq_iff)
  from process_line_facts [OF this] obtain w where
    "metadata_writes (fst (process_line E A dirs line)) = [w]"
    "record_field (snd w) ''git_ref'' = Some (line_ref E line)"
    by (auto simp: record_of_line_def)
  then show ?thesis
    by (cases w) (simp add: line_ref_def)
qed

theorem git_ref_defaults_to_main_witness:
  "\<exists>file c. metadata_writes (fst (process_line demo_env default_args [] line_bar)) = [(file, c)]
     \<and> record_field c ''git_ref'' = Some (PStr ''v1.0'')"
proof -
  have 1: "fst (snd (process_line demo_env default_args [] line_bar)) =
      Inr (PDict [(''library_id'', PStr ''Bar''), (''path'', PStr ''libs/bar''),
        (''metadata'', PStr ''metadata/bar.json'')])"
    by code_simp
  have 2: "manifest_field demo_env line_bar ''git_ref'' = Some (PStr ''v1.0'')"
    by code_simp
  from git_ref_defaults_to_main [OF 1] 2 show ?thesis
    by blast
qed

text \<open>
  Claim C5. Whenever the iteration for a line with identifier \<open>lib\<close> completes, its
  one record goes to \<^verbatim>\<open>Path(metadata_dir) / (lib.lower() + ".json")\<close>; for a directory
  name and an identifier without slashes this is the directory, a slash, the
  lower-cased identifier and \<^verbatim>\<open>.json\<close>; and an identifier that differs from \<open>lib\<close>
  only in case has the same file.
\<close>

theorem output_file_named_after_lowercased_id:
  assumes "fst (snd (process_line E A dirs line)) = Inr ie"
    and "manifest_field E line ''library_id'' = Some (PStr lib)"
  shows "map fst (metadata_writes (fst (process_line E A dirs line)))
       = [path_str (truediv (metadata_dir A) (lower lib @ ''.json''))]
     \<and> (CHR ''/'' \<notin> set (metadata_dir A) \<and> metadata_dir A \<noteq> [] \<and> metadata_dir A \<noteq> ''.''
          \<and> CHR ''/'' \<notin> set lib
        \<longrightarrow> path_str (truediv (metadata_dir A) (lower lib @ ''.json''))
              = metadata_dir A @ ''/'' @ lower lib @ ''.json'')
     \<and> (\<forall>lib'. differ_only_in_case lib lib'
        \<longrightarrow> path_str (out_file A lib') = path_str (out_file A lib))"
proof -
  from assms(1) have "process_line E A dirs line =
      (fst (process_line E A dirs line), Inr ie, snd (snd (process_line E A dirs line)))"
    by (simp add: prod_eq_iff)
  from process_line_facts [OF this] obtain w where
    w: "metadata_writes (fst (process_line E A dirs line)) = [w]"
    and f: "spec_out_file E A line = Some (fst w)"
    by (auto simp: record_of_line_def)
  from f assms(2) have "fst w = path_str (truediv (metadata_dir A) (lower lib @ ''.json''))"
    by (simp add: spec_out_file_def spec_library_id_def out_file_def)
  with w have 1: "map fst (metadata_writes (fst (process_line E A dirs line)))
       = [path_str (truediv (metadata_dir A) (lower lib @ ''.json''))]"
    by simp
  have 2: "path_str (truediv (metadata_dir A) (lower lib @ ''.json''))
              = metadata_dir A @ ''/'' @ lower lib @ ''.json''"
    if "CHR ''/'' \<notin> set (metadata_dir A)" "metadata_dir A \<noteq> []" "metadata_dir A \<noteq> ''.''"
       "CHR ''/'' \<notin> set lib"
  proof (rule path_str_plain [OF that(1,2,3)])
    show "CHR ''/'' \<notin> set (lower lib @ ''.json'')"
      using lower_no_slash [OF that(4)] by simp
  qed simp_all
  have 3: "path_str (out_file A lib') = path_str (out_file A lib)"
    if "differ_only_in_case lib lib'" for lib'
    using differ_only_in_case_lower [OF that] by (simp add: out_file_def)
  from 1 2 3 show ?thesis by blast
qed

theorem output_file_named_after_lowercased_id_witness:
  "map fst (metadata_writes (fst (process_line demo_env default_args [] line_foo)))
       = [''metadata/foo.json'']
     \<and> path_str (out_file default_args ''FOO'') = path_str (out_file default_args ''Foo'')"
proof -
  have 1: "fst (snd (process_line demo_env default_args [] line_foo)) =
      Inr (PDict [(''library_id'', PStr ''Foo''), (''path'', PStr ''libs/foo''),
        (''metadata'', PStr ''metadata/foo.json'')])"
    by code_simp
  have 2: "manifest_field demo_env line_foo ''library_id'' = Some (PStr ''Foo'')"
    by code_simp
  have 3: "differ_only_in_case ''Foo'' ''FOO''"
    by code_simp
  have 4: "path_str (truediv (metadata_dir default_args) (lower ''Foo'' @ ''.json''))
      = ''metadata/foo.json''"
    by code_simp
  from output_file_named_after_lowercased_id [OF 1 2] 3 show ?thesis
    unfolding 4 by blast
qed

text \<open>
  Claim C6. If a line of the manifest is not valid JSON, the run ends with an
  exception; its events are the creation of the directory and the events of the
  loop over the lines before that line, so nothing is produced for that line or a
  later one; no index is written; and when the lines before it are processed without
  an exception, the exception is the parse error.
\<close>

theorem malformed_line_aborts_run:
  assumes "read_lines E (manifest_path A) = Some (pre @ bad # post)"
    and "json_loads E bad = None"
  shows "(\<exists>e. fst (snd (build_metadata E A dirs)) = Some e)
     \<and> fst (build_metadata E A dirs) =
         (if mkdir_ok E (path_str (metadata_dir A))
          then Mkdir (path_str (metadata_dir A)) # fst (process_lines E A dirs pre [])
          else [])
     \<and> index_writes (fst (build_metadata E A dirs)) = []
     \<and> (\<forall>evs index dirs'. mkdir_ok E (path_str (metadata_dir A)) \<longrightarrow>
           process_lines E A dirs pre [] = (evs, Inr index, dirs') \<longrightarrow>
           build_metadata E A dirs
             = (Mkdir (path_str (metadata_dir A)) # evs, Some JSONDecodeError, dirs'))"
proof -
  note b = process_lines_bad_json [OF assms(2), where A = A and dirs = dirs and pre = pre
      and post = post and idx = "[]"]
  obtain evs r d where run: "process_lines E A dirs (pre @ bad # post) [] = (evs, r, d)"
    by (cases "process_lines E A dirs (pre @ bad # post) []")
  from b(2) run obtain e where r: "r = Inl e" by auto
  from b(1) run have evs: "evs = fst (process_lines E A dirs pre [])" by simp
  have bm: "build_metadata E A dirs =
      (if mkdir_ok E (path_str (metadata_dir A))
       then (Mkdir (path_str (metadata_dir A)) # evs, Some e, d) else ([], Some OSError, dirs))"
    using assms(1) run r by (simp add: build_metadata_def)
  have "index_writes evs = []"
    unfolding evs by (rule process_lines_no_index_write)
  moreover have "process_lines E A dirs pre [] = (evs', Inr index, dirs') \<Longrightarrow> e = JSONDecodeError \<and> d = dirs'"
    for evs' index dirs'
    using b(3) [of evs' index dirs'] run r by simp
  ultimately show ?thesis
    using bm evs by auto
qed

theorem malformed_line_aborts_run_witness:
  "fst (snd (build_metadata demo_env broken_args [])) = Some JSONDecodeError
     \<and> index_writes (fst (build_metadata demo_env broken_args [])) = []
     \<and> fst (build_metadata demo_env broken_args []) =
         Mkdir ''metadata'' # fst (process_lines demo_env broken_args [] [line_foo] [])"
proof -
  have 1: "read_lines demo_env (manifest_path broken_args) = Some ([line_foo] @ line_bad # [line_bar])"
    by (simp add: demo_env_def broken_args_def default_args_def demo_manifests_def)
  have 2: "json_loads demo_env line_bad = None"
    by code_simp
  have 3: "mkdir_ok demo_env (path_str (metadata_dir broken_args))"
    by (simp add: demo_env_def)
  have 4: "path_str (metadata_dir broken_args) = ''metadata''"
    by code_simp
  have "snd (process_lines demo_env broken_args [] [line_foo] []) =
      (Inr [PDict [(''library_id'', PStr ''Foo''), (''path'', PStr ''libs/foo''),
        (''metadata'', PStr ''metadata/foo.json'')]], [''.clones/foo''])"
    by code_simp
  then have 5: "process_lines demo_env broken_args [] [line_foo] [] =
      (fst (process_lines demo_env broken_args [] [line_foo] []),
       Inr [PDict [(''library_id'', PStr ''Foo''), (''path'', PStr ''libs/foo''),
         (''metadata'', PStr ''metadata/foo.json'')]], [''.clones/foo''])"
    by (simp add: prod_eq_iff)
  from malformed_line_aborts_run [OF 1 2, of "[]"]
  have b: "index_writes (fst (build_metadata demo_env broken_args [])) = []"
    and c: "\<forall>evs index dirs'. mkdir_ok demo_env (path_str (metadata_dir broken_args)) \<longrightarrow>
           process_lines demo_env broken_args [] [line_foo] [] = (evs, Inr index, dirs') \<longrightarrow>
           build_metadata demo_env broken_args []
             = (Mkdir (path_str (metadata_dir broken_args)) # evs, Some JSONDecodeError, dirs')"
    by blast+
  from c 3 5 have "build_metadata demo_env broken_args []
      = (Mkdir (path_str (metadata_dir broken_args))
           # fst (process_lines demo_env broken_args [] [line_foo] []), Some JSONDecodeError,
         [''.clones/foo''])"
    by blast
  then have d: "build_metadata demo_env broken_args []
      = (Mkdir ''metadata'' # fst (process_lines demo_env broken_args [] [line_foo] []),
         Some JSONDecodeError, [''.clones/foo''])"
    unfolding 4 .
  show ?thesis
  proof (intro conjI)
    show "fst (snd (build_metadata demo_env broken_args [])) = Some JSONDecodeError"
      by (simp only: d fst_conv snd_conv)
    show "index_writes (fst (build_metadata demo_env broken_args [])) = []"
      by (rule b)
    show "fst (build_metadata demo_env broken_args []) =
         Mkdir ''metadata'' # fst (process_lines demo_env broken_args [] [line_foo] [])"
      by (simp only: d fst_conv)
  qed
qed


text \<open>
  Claim C7. For a line whose clone succeeds and has no \<^verbatim>\<open>pyproject.toml\<close>, on a
  standard output that can print the warning, the iteration runs the clone, prints
  the warning that names the library, writes the record with the defaults and ends
  without an exception; the loop then goes on with the rest of the manifest, the
  index grown by the entry of this line.
\<close>

theorem missing_project_file_warns_and_continues:
  assumes "json_loads E line = Some (PDict d)"
    and "json_serializable (PDict d)"
    and "map_of d ''library_id'' = Some (PStr lib)"
    and "map_of d ''url'' = Some (PStr u)"
    and "map_of d ''path'' = Some p"
    and "subprocess_run E [''git'', ''clone'', u, path_str (target A lib)] = Some 0"
    and "path_str (target A lib) \<notin> set dirs"
    and "\<not> path_exists E (path_str (pyproj (target A lib)))"
    and "can_print E (Warning lib)"
    and "can_write E (path_str (out_file A lib))"
  shows "\<exists>ie. process_line E A dirs line =
       ([Run [''git'', ''clone'', u, path_str (target A lib)],
         Print (Warning lib),
         WriteMetadata (path_str (out_file A lib))
           (Complete (default_record lib p (PStr u) (line_ref E line)))],
        Inr ie, path_str (target A lib) # dirs)
     \<and> process_lines E A dirs (line # rest) index =
         (case process_lines E A (path_str (target A lib) # dirs) rest (index @ [ie]) of
            (evs, r) \<Rightarrow>
              ([Run [''git'', ''clone'', u, path_str (target A lib)],
                Print (Warning lib),
                WriteMetadata (path_str (out_file A lib))
                  (Complete (default_record lib p (PStr u) (line_ref E line)))] @ evs, r))"
proof -
  have lp: "load_project E (target A lib) lib = ([Print (Warning lib)], Inr (PDict []))"
    using assms(8,9) by (simp add: load_project_def)
  from process_line_with_table [OF assms(1,3,4,5,2,6) lp _ assms(10,7)]
  show ?thesis
    by (simp add: merged_record_empty)
qed

theorem missing_project_file_warns_and_continues_witness:
  "\<exists>ie. process_line demo_env default_args [] line_foo =
       ([Run [''git'', ''clone'', ''https://example/foo.git'', path_str (target default_args ''Foo'')],
         Print (Warning ''Foo''),
         WriteMetadata (path_str (out_file default_args ''Foo''))
           (Complete (default_record ''Foo'' (PStr ''libs/foo'') (PStr ''https://example/foo.git'')
              (line_ref demo_env line_foo)))],
        Inr ie, path_str (target default_args ''Foo'') # [])
     \<and> process_lines demo_env default_args [] (line_foo # [line_bar]) [] =
         (case process_lines demo_env default_args (path_str (target default_args ''Foo'') # [])
                 [line_bar] ([] @ [ie]) of
            (evs, r) \<Rightarrow>
              ([Run [''git'', ''clone'', ''https://example/foo.git'', path_str (target default_args ''Foo'')],
                Print (Warning ''Foo''),
                WriteMetadata (path_str (out_file default_args ''Foo''))
                  (Complete (default_record ''Foo'' (PStr ''libs/foo'') (PStr ''https://example/foo.git'')
                     (line_ref demo_env line_foo)))] @ evs, r))"
proof -
  let ?d = "[(''library_id'', PStr ''Foo''), (''path'', PStr ''libs/foo''),
       (''url'', PStr ''https://example/foo.git'')]"
  have 1: "json_loads demo_env line_foo = Some (PDict ?d)" by code_simp
  have 2: "json_serializable (PDict ?d)" by simp
  have 3: "map_of ?d ''library_id'' = Some (PStr ''Foo'')" by simp
  have 4: "map_of ?d ''url'' = Some (PStr ''https://example/foo.git'')" by simp
  have 5: "map_of ?d ''path'' = Some (PStr ''libs/foo'')" by simp
  have 6: "subprocess_run demo_env
      [''git'', ''clone'', ''https://example/foo.git'', path_str (target default_args ''Foo'')] = Some 0"
    by (simp add: demo_env_def)
  have 7: "path_str (target default_args ''Foo'') \<notin> set []"
    by simp
  have 8: "\<not> path_exists demo_env (path_str (pyproj (target default_args ''Foo'')))"
    by code_simp
  have 9: "can_print demo_env (Warning ''Foo'')"
    by (simp add: demo_env_def)
  have 10: "can_write demo_env (path_str (out_file default_args ''Foo''))"
    by (simp add: demo_env_def)
  show ?thesis
    by (rule missing_project_file_warns_and_continues [OF 1 2 3 4 5 6 7 8 9 10])
qed

text \<open>
  Claim C8, as the code has it. Let two lines of a manifest have the same
  identifier, the later being the first line of the manifest whose checkout
  directory was used before, all lines up to it well formed and their external steps
  going well. Then the run does not return: the clone for the later line finds the
  directory that the clone for the earlier line left, \<^verbatim>\<open>git\<close> exits with status 128
  and \<^verbatim>\<open>check=True\<close> raises \<^verbatim>\<open>CalledProcessError\<close>. The records written are those of
  the lines before the later one, so none for it or a line after it; the file of the
  earlier line still holds the earlier record (unless a line in between wrote to the
  same file); and no index is written.
\<close>

theorem duplicate_identifier_aborts_run:
  assumes mk: "mkdir_ok E (path_str (metadata_dir A))"
    and rd: "read_lines E (manifest_path A) = Some (pre @ l1 # mid @ l2 # post)"
    and ok: "\<forall>l\<in>set (pre @ l1 # mid @ [l2]). well_formed_line E l \<and> externals_ok E A l"
    and dis: "distinct (map (spec_target E A) (pre @ l1 # mid))"
    and free: "\<forall>l\<in>set (pre @ l1 # mid). \<forall>t\<in>set dirs. spec_target E A l \<noteq> Some t"
    and id1: "spec_library_id E l1 = Some lib"
    and id2: "spec_library_id E l2 = Some lib"
  shows "\<exists>evs u dirs' wpre c1 wmid.
       build_metadata E A dirs =
         (evs @ [Run [''git'', ''clone'', u, path_str (target A lib)]],
          Some (CalledProcessError 128), dirs')
     \<and> manifest_field E l2 ''url'' = Some (PStr u)
     \<and> metadata_writes (evs @ [Run [''git'', ''clone'', u, path_str (target A lib)]])
         = wpre @ (path_str (out_file A lib), c1) # wmid
     \<and> length wpre = length pre \<and> length wmid = length mid
     \<and> record_of_line E A l1 (path_str (out_file A lib), c1)
     \<and> index_writes (evs @ [Run [''git'', ''clone'', u, path_str (target A lib)]]) = []
     \<and> ((\<forall>l\<in>set mid. spec_out_file E A l \<noteq> Some (path_str (out_file A lib)))
          \<longrightarrow> files_after fs (evs @ [Run [''git'', ''clone'', u, path_str (target A lib)]])
                (path_str (out_file A lib)) = Some c1)"
proof -
  let ?file = "path_str (out_file A lib)"
  let ?tgt = "path_str (target A lib)"
  have ok1: "\<forall>l\<in>set (pre @ l1 # mid). well_formed_line E l \<and> externals_ok E A l"
    using ok by auto
  from process_lines_all_succeed [OF ok1 dis free, of "[]"] obtain evs ies dirs' where
    run: "process_lines E A dirs (pre @ l1 # mid) [] = (evs, Inr ies, dirs')"
    and ws: "list_all2 (record_of_line E A) (pre @ l1 # mid) (metadata_writes evs)"
    and iw: "index_writes evs = []"
    and tg: "\<forall>l\<in>set (pre @ l1 # mid). \<forall>t. spec_target E A l = Some t \<longrightarrow> t \<in> set dirs'"
    by auto
  have "spec_target E A l1 = Some ?tgt"
    using id1 by (simp add: spec_target_def)
  with tg have occ: "?tgt \<in> set dirs'"
    by simp
  from ok have wf2: "well_formed_line E l2" and ext2: "externals_ok E A l2"
    by simp_all
  from id2 obtain d where d: "json_loads E l2 = Some (PDict d)"
    and lib: "map_of d ''library_id'' = Some (PStr lib)"
    by (auto simp: spec_library_id_def manifest_field_Some as_str_Some split: option.splits)
  from wf2 obtain u where u: "manifest_field E l2 ''url'' = Some (PStr u)"
    by (auto simp: well_formed_line_def is_string_Some)
  then have u': "map_of d ''url'' = Some (PStr u)"
    by (simp add: manifest_field_dict [OF d])
  from ext2 u have sr: "subprocess_run E [''git'', ''clone'', u, ?tgt] = Some 0"
    by (simp add: externals_ok_def manifest_field_dict [OF d] lib)
  let ?run = "Run [''git'', ''clone'', u, ?tgt]"
  have l2: "process_line E A dirs' l2 = ([?run], Inl (CalledProcessError 128), dirs')"
    by (rule process_line_occupied [OF d lib u' sr occ])
  have "pre @ l1 # mid @ l2 # post = (pre @ l1 # mid) @ l2 # post"
    by simp
  then have all: "process_lines E A dirs (pre @ l1 # mid @ l2 # post) []
      = (evs @ [?run], Inl (CalledProcessError 128), dirs')"
    using run l2 by (simp only: process_lines_append) simp
  have b: "build_metadata E A dirs = (Mkdir (path_str (metadata_dir A)) # evs @ [?run],
      Some (CalledProcessError 128), dirs')"
    using mk rd all by (simp add: build_metadata_def)
  let ?evs = "Mkdir (path_str (metadata_dir A)) # evs"
  from ws obtain wpre w1 wmid where
    dec: "metadata_writes evs = wpre @ w1 # wmid"
    and rpre: "list_all2 (record_of_line E A) pre wpre"
    and r1: "record_of_line E A l1 w1"
    and rmid: "list_all2 (record_of_line E A) mid wmid"
    by (auto simp: list_all2_append1 list_all2_Cons1)
  obtain c1 where w1: "w1 = (?file, c1)"
    using record_of_line_file [OF r1 id1] by (cases w1) simp
  have mw: "metadata_writes (?evs @ [?run]) = wpre @ (?file, c1) # wmid"
    using dec w1 by simp
  have ix: "index_writes (?evs @ [?run]) = []"
    using iw by simp
  have wt: "writes (?evs @ [?run]) = wpre @ (?file, c1) # wmid"
    using writes_without_index [OF iw] dec w1 by simp
  have kept: "files_after fs (?evs @ [?run]) ?file = Some c1"
    if nomid: "\<forall>l\<in>set mid. spec_out_file E A l \<noteq> Some ?file"
  proof -
    have "?file \<notin> fst ` set wmid"
    proof
      assume "?file \<in> fst ` set wmid"
      then obtain w where w: "w \<in> set wmid" "fst w = ?file" by auto
      from list_all2_in_set2 [OF rmid w(1)] obtain l where "l \<in> set mid" "record_of_line E A l w"
        by blast
      with w(2) nomid show False by (auto simp: record_of_line_def)
    qed
    then have "map_of (rev wmid) ?file = None"
      by (rule map_of_rev_absent)
    moreover have "files_after fs (?evs @ [?run]) ?file =
        (fs ++ map_of (rev (wpre @ (?file, c1) # wmid))) ?file"
      by (simp only: files_after_writes wt)
    ultimately show ?thesis
      by (simp add: map_add_def)
  qed
  show ?thesis
  proof (intro exI conjI)
    show "build_metadata E A dirs = (?evs @ [?run], Some (CalledProcessError 128), dirs')"
      using b by simp
    show "manifest_field E l2 ''url'' = Some (PStr u)" by (rule u)
    show "metadata_writes (?evs @ [?run]) = wpre @ (?file, c1) # wmid" by (rule mw)
    show "length wpre = length pre" using rpre by (simp add: list_all2_lengthD)
    show "length wmid = length mid" using rmid by (simp add: list_all2_lengthD)
    show "record_of_line E A l1 (?file, c1)" using r1 w1 by simp
    show "index_writes (?evs @ [?run]) = []" by (rule ix)
    show "(\<forall>l\<in>set mid. spec_out_file E A l \<noteq> Some ?file)
          \<longrightarrow> files_after fs (?evs @ [?run]) ?file = Some c1"
      using kept by blast
  qed
qed

theorem duplicate_identifier_aborts_run_witness:
  "\<exists>evs dirs' c1 w.
       build_metadata demo_env duplicates_args [] = (evs, Some (CalledProcessError 128), dirs')
     \<and> metadata_writes evs = [(''metadata/foo.json'', c1), w]
     \<and> record_field c1 ''path'' = Some (PStr ''libs/foo'')
     \<and> index_writes evs = []
     \<and> files_after no_files evs ''metadata/foo.json'' = Some c1"
proof -
  have 1: "mkdir_ok demo_env (path_str (metadata_dir duplicates_args))"
    by (simp add: demo_env_def)
  have 2: "read_lines demo_env (manifest_path duplicates_args)
      = Some ([] @ line_foo # [line_bar] @ line_foo_again # [])"
    by (simp add: demo_env_def duplicates_args_def default_args_def demo_manifests_def)
  have 3: "\<forall>l\<in>set ([] @ line_foo # [line_bar] @ [line_foo_again]).
      well_formed_line demo_env l \<and> externals_ok demo_env duplicates_args l"
    by code_simp
  have 4: "distinct (map (spec_target demo_env duplicates_args) ([] @ line_foo # [line_bar]))"
    by code_simp
  have 5: "\<forall>l\<in>set ([] @ line_foo # [line_bar]). \<forall>t\<in>set [].
      spec_target demo_env duplicates_args l \<noteq> Some t"
    by simp
  have 6: "spec_library_id demo_env line_foo = Some ''Foo''"
    by code_simp
  have 7: "spec_library_id demo_env line_foo_again = Some ''Foo''"
    by code_simp
  have 8: "path_str (out_file duplicates_args ''Foo'') = ''metadata/foo.json''"
    by code_simp
  have 9: "manifest_field demo_env line_foo ''path'' = Some (PStr ''libs/foo'')"
    by code_simp
  have 10: "\<forall>l\<in>set [line_bar]. spec_out_file demo_env duplicates_args l \<noteq> Some ''metadata/foo.json''"
    by code_simp
  from duplicate_identifier_aborts_run [OF 1 2 3 4 5 6 7, of no_files, unfolded 8] 10
  obtain evs u dirs' wpre c1 wmid where
    run: "build_metadata demo_env duplicates_args [] =
        (evs @ [Run [''git'', ''clone'', u, path_str (target duplicates_args ''Foo'')]],
         Some (CalledProcessError 128), dirs')"
    and ws: "metadata_writes (evs @ [Run [''git'', ''clone'', u, path_str (target duplicates_args ''Foo'')]])
        = wpre @ (''metadata/foo.json'', c1) # wmid"
    and lw: "length wpre = 0" "length wmid = 1"
    and r1: "record_of_line demo_env duplicates_args line_foo (''metadata/foo.json'', c1)"
    and ix: "index_writes (evs @ [Run [''git'', ''clone'', u, path_str (target duplicates_args ''Foo'')]]) = []"
    and fin: "files_after no_files (evs @ [Run [''git'', ''clone'', u, path_str (target duplicates_args ''Foo'')]])
        ''metadata/foo.json'' = Some c1"
    by auto
  from lw(2) obtain w where w: "wmid = [w]"
    by (cases wmid) auto
  from r1 9 have p: "record_field c1 ''path'' = Some (PStr ''libs/foo'')"
    by (simp add: record_of_line_def)
  from ws lw w have ws': "metadata_writes (evs @ [Run [''git'', ''clone'', u, path_str (target duplicates_args ''Foo'')]])
      = [(''metadata/foo.json'', c1), w]"
    by simp
  from run ws' p ix fin show ?thesis
    by blast
qed

text \<open>
  The counterexample to claim C8 as the specification states it: the run over the
  manifest with the lines \<^verbatim>\<open>Foo\<close>, \<^verbatim>\<open>Bar\<close>, \<^verbatim>\<open>Foo\<close>, every single step going well, ends
  with \<^verbatim>\<open>CalledProcessError\<close> at the third line; two records were written, the file
  of \<^verbatim>\<open>Foo\<close> holds the record of the first line, and there is no index.
\<close>

theorem duplicate_identifiers_counterexample:
  "fst (snd (build_metadata demo_env duplicates_args [])) = Some (CalledProcessError 128)
   \<and> map fst (metadata_writes (fst (build_metadata demo_env duplicates_args [])))
       = [''metadata/foo.json'', ''metadata/bar.json'']
   \<and> file_field (files_after no_files (fst (build_metadata demo_env duplicates_args [])))
       ''metadata/foo.json'' ''path'' = Some (PStr ''libs/foo'')
   \<and> index_writes (fst (build_metadata demo_env duplicates_args [])) = []"
  by code_simp

text \<open>
  Claim C9 (a second run rewrites the same files). The docstring promises a sixth
  step that removes the clone directories; the code has none. So after a run that
  returned, the checkout directory of the first line of the manifest is still there,
  and a second run ends at its first \<^verbatim>\<open>git clone\<close> with \<^verbatim>\<open>CalledProcessError\<close>: it
  creates the directory of the metadata, starts the clone and writes no file.
\<close>

theorem second_run_aborts_at_first_clone:
  assumes "build_metadata E A dirs = (evs, None, dirs')"
    and "read_lines E (manifest_path A) = Some (l # ls)"
  shows "\<exists>argv. build_metadata E A dirs' =
       ([Mkdir (path_str (metadata_dir A)), Run argv], Some (CalledProcessError 128), dirs')
     \<and> writes (fst (build_metadata E A dirs')) = []"
proof -
  obtain evs0 r d0 where pl: "process_lines E A dirs (l # ls) [] = (evs0, r, d0)"
    by (cases "process_lines E A dirs (l # ls) []")
  from assms pl have mk: "mkdir_ok E (path_str (metadata_dir A))"
    and "\<exists>index. r = Inr index" and d0: "d0 = dirs'"
    by (auto simp: build_metadata_def write_json_def Let_def
        split: if_splits sum.splits prod.splits)
  then obtain index where r: "r = Inr index"
    by blast
  obtain ev r1 d1 where l: "process_line E A dirs l = (ev, r1, d1)"
    by (cases "process_line E A dirs l")
  from pl r l obtain ie where r1: "r1 = Inr ie"
    by (cases r1) auto
  obtain evs' r' where rest: "process_lines E A d1 ls ([] @ [ie]) = (evs', r')"
    by (cases "process_lines E A d1 ls ([] @ [ie])")
  from pl l r1 rest d0 have "snd r' = dirs'"
    by auto
  with process_lines_keeps_dirs [of d1 E A ls "[] @ [ie]"] rest have sub: "set d1 \<subseteq> set dirs'"
    by simp
  from process_line_Inr [OF l [unfolded r1]] obtain d lib u where
    d: "json_loads E l = Some (PDict d)" and lib: "map_of d ''library_id'' = Some (PStr lib)"
    and u: "map_of d ''url'' = Some (PStr u)"
    and sr: "subprocess_run E [''git'', ''clone'', u, path_str (target A lib)] = Some 0"
    and d1: "d1 = path_str (target A lib) # dirs"
    by blast
  from sub d1 have occ: "path_str (target A lib) \<in> set dirs'"
    by auto
  let ?argv = "[''git'', ''clone'', u, path_str (target A lib)]"
  have l2: "process_line E A dirs' l = ([Run ?argv], Inl (CalledProcessError 128), dirs')"
    by (rule process_line_occupied [OF d lib u sr occ])
  have b: "build_metadata E A dirs' =
      ([Mkdir (path_str (metadata_dir A)), Run ?argv], Some (CalledProcessError 128), dirs')"
    using mk assms(2) l2 by (simp add: build_metadata_def)
  then have "writes (fst (build_metadata E A dirs')) = []"
    by simp
  with b show ?thesis
    by blast
qed

theorem second_run_aborts_at_first_clone_witness:
  "\<exists>argv. build_metadata demo_env default_args [''.clones/qux'', ''.clones/bar'', ''.clones/foo''] =
       ([Mkdir (path_str (metadata_dir default_args)), Run argv], Some (CalledProcessError 128),
        [''.clones/qux'', ''.clones/bar'', ''.clones/foo''])
     \<and> writes (fst (build_metadata demo_env default_args
          [''.clones/qux'', ''.clones/bar'', ''.clones/foo''])) = []"
proof -
  have "snd (build_metadata demo_env default_args []) =
      (None, [''.clones/qux'', ''.clones/bar'', ''.clones/foo''])"
    by code_simp
  then have 1: "build_metadata demo_env default_args [] =
      (fst (build_metadata demo_env default_args []), None,
       [''.clones/qux'', ''.clones/bar'', ''.clones/foo''])"
    by (simp add: prod_eq_iff)
  have 2: "read_lines demo_env (manifest_path default_args) = Some (line_foo # [line_bar, line_qux])"
    by (simp add: demo_env_def default_args_def demo_manifests_def)
  show ?thesis
    by (rule second_run_aborts_at_first_clone [OF 1 2])
qed

text \<open>
  Claim C10. For a line whose clone succeeds and has a \<^verbatim>\<open>pyproject.toml\<close> that parses
  into a document without a \<^verbatim>\<open>project\<close> key, or with an empty \<^verbatim>\<open>project\<close> table, the
  iteration runs the clone and writes the record with the defaults and prints no
  warning; the record is the same as when the file does not exist, where (the
  standard output taking it) the warning is printed.
\<close>

theorem project_table_missing_or_empty:
  assumes "json_loads E line = Some (PDict d)"
    and "json_serializable (PDict d)"
    and "map_of d ''library_id'' = Some (PStr lib)"
    and "map_of d ''url'' = Some (PStr u)"
    and "map_of d ''path'' = Some p"
    and "subprocess_run E [''git'', ''clone'', u, path_str (target A lib)] = Some 0"
    and "path_str (target A lib) \<notin> set dirs"
    and "path_exists E (path_str (pyproj (target A lib)))"
    and "toml_load E (path_str (pyproj (target A lib))) = Inr doc"
    and "map_of doc ''project'' = None \<or> map_of doc ''project'' = Some (PDict [])"
    and "can_write E (path_str (out_file A lib))"
  shows "fst (process_line E A dirs line) =
       [Run [''git'', ''clone'', u, path_str (target A lib)],
        WriteMetadata (path_str (out_file A lib))
          (Complete (default_record lib p (PStr u) (line_ref E line)))]
     \<and> warnings (fst (process_line E A dirs line)) = []
     \<and> (can_print E (Warning lib) \<longrightarrow>
          metadata_writes (fst (process_line E A dirs line)) =
            metadata_writes (fst (process_line (E\<lparr>path_exists := \<lambda>f. False\<rparr>) A dirs line))
        \<and> warnings (fst (process_line (E\<lparr>path_exists := \<lambda>f. False\<rparr>) A dirs line)) = [lib])"
proof -
  let ?E = "E\<lparr>path_exists := \<lambda>f. False\<rparr>"
  have lp: "load_project E (target A lib) lib = ([], Inr (PDict []))"
    using assms(8,9,10) by (auto simp: load_project_def)
  have r: "line_ref ?E line = line_ref E line"
    by (simp add: line_ref_def manifest_field_def)
  from process_line_with_table [OF assms(1,3,4,5,2,6) lp _ assms(11,7)]
  have 1: "process_line E A dirs line =
     ([Run [''git'', ''clone'', u, path_str (target A lib)],
        WriteMetadata (path_str (out_file A lib))
          (Complete (default_record lib p (PStr u) (line_ref E line)))],
      Inr (PDict [(''library_id'', PStr lib), (''path'', p),
        (''metadata'', PStr (path_str (out_file A lib)))]),
      path_str (target A lib) # dirs)"
    by (simp add: merged_record_empty)
  have 2: "process_line ?E A dirs line =
     ([Run [''git'', ''clone'', u, path_str (target A lib)], Print (Warning lib),
        WriteMetadata (path_str (out_file A lib))
          (Complete (default_record lib p (PStr u) (line_ref E line)))],
      Inr (PDict [(''library_id'', PStr lib), (''path'', p),
        (''metadata'', PStr (path_str (out_file A lib)))]),
      path_str (target A lib) # dirs)"
    if pr: "can_print E (Warning lib)"
  proof -
    have lp': "load_project ?E (target A lib) lib = ([Print (Warning lib)], Inr (PDict []))"
      using pr by (simp add: load_project_def)
    from process_line_with_table [of ?E line d lib u p A "[Print (Warning lib)]" "[]" dirs] assms lp'
    show ?thesis
      by (simp add: merged_record_empty r)
  qed
  show ?thesis
    using 2 by (auto simp: 1)
qed

theorem project_table_missing_or_empty_witness:
  "fst (process_line demo_env default_args [] line_qux) =
       [Run [''git'', ''clone'', ''https://example/qux.git'', path_str (target default_args ''Qux'')],
        WriteMetadata (path_str (out_file default_args ''Qux''))
          (Complete (default_record ''Qux'' (PStr ''libs/qux'') (PStr ''https://example/qux.git'')
             (line_ref demo_env line_qux)))]
     \<and> warnings (fst (process_line demo_env default_args [] line_qux)) = []
     \<and> metadata_writes (fst (process_line demo_env default_args [] line_qux)) =
         metadata_writes (fst (process_line (demo_env\<lparr>path_exists := \<lambda>f. False\<rparr>) default_args [] line_qux))
     \<and> warnings (fst (process_line (demo_env\<lparr>path_exists := \<lambda>f. False\<rparr>) default_args [] line_qux))
         = [''Qux'']"
proof -
  let ?d = "[(''library_id'', PStr ''Qux''), (''path'', PStr ''libs/qux''),
       (''url'', PStr ''https://example/qux.git'')]"
  let ?doc = "[(''build-system'', PDict [(''requires'', PList [PStr ''setuptools''])])]"
  have 1: "json_loads demo_env line_qux = Some (PDict ?d)" by code_simp
  have 2: "json_serializable (PDict ?d)" by simp
  have 3: "map_of ?d ''library_id'' = Some (PStr ''Qux'')" by simp
  have 4: "map_of ?d ''url'' = Some (PStr ''https://example/qux.git'')" by simp
  have 5: "map_of ?d ''path'' = Some (PStr ''libs/qux'')" by simp
  have 6: "subprocess_run demo_env
      [''git'', ''clone'', ''https://example/qux.git'', path_str (target default_args ''Qux'')] = Some 0"
    by (simp add: demo_env_def)
  have 7: "path_str (target default_args ''Qux'') \<notin> set []"
    by simp
  have 8: "path_exists demo_env (path_str (pyproj (target default_args ''Qux'')))"
    by code_simp
  have 9: "toml_load demo_env (path_str (pyproj (target default_args ''Qux''))) = Inr ?doc"
    by code_simp
  have 10: "map_of ?doc ''project'' = None \<or> map_of ?doc ''project'' = Some (PDict [])"
    by simp
  have 11: "can_write demo_env (path_str (out_file default_args ''Qux''))"
    by (simp add: demo_env_def)
  have 12: "can_print demo_env (Warning ''Qux'')"
    by (simp add: demo_env_def)
  from project_table_missing_or_empty [OF 1 2 3 4 5 6 7 8 9 10 11] 12 show ?thesis
    by blast
qed

end
